theory Spec2Isabelle
  imports Complex_Main
begin

section \<open>Rotating hexagon ball: the physics and interaction core\<close>

text \<open>
  A shallow embedding of \<^verbatim>\<open>rotating_hexagon_ball.py\<close>. Python floats are read as
  real numbers, so every statement below is about the exact arithmetic of the program,
  not about rounding. A \<^verbatim>\<open>pygame.Vector2\<close> is a mutable object: the fields of
  \<^verbatim>\<open>Ball\<close> and \<^verbatim>\<open>DragState\<close> hold references to such objects, an
  assignment copies the reference, and \<^verbatim>\<open>+=\<close>, \<^verbatim>\<open>-=\<close> and
  \<^verbatim>\<open>update\<close> change the object in place. The model therefore keeps the vectors
  of the two long-lived objects in an explicit store.
\<close>

subsection \<open>Vector values\<close>

type_synonym vec = "real \<times> real"

definition vadd :: "vec \<Rightarrow> vec \<Rightarrow> vec" where
  "vadd a b = (fst a + fst b, snd a + snd b)"

definition vsub :: "vec \<Rightarrow> vec \<Rightarrow> vec" where
  "vsub a b = (fst a - fst b, snd a - snd b)"

definition vneg :: "vec \<Rightarrow> vec" where
  "vneg a = (- fst a, - snd a)"

text \<open>\<^verbatim>\<open>v * k\<close> and \<^verbatim>\<open>k * v\<close> for a scalar \<open>k\<close>.\<close>

definition vmul :: "vec \<Rightarrow> real \<Rightarrow> vec" where
  "vmul a k = (fst a * k, snd a * k)"

text \<open>
  \<^verbatim>\<open>v / k\<close>. The program divides only by \<^verbatim>\<open>BALL_MASS\<close> (the constant 1.0) and
  by \<^verbatim>\<open>max(dt, 1e-6)\<close>, which is never zero.
\<close>

definition vdiv :: "vec \<Rightarrow> real \<Rightarrow> vec" where
  "vdiv a k = (fst a / k, snd a / k)"

definition dot :: "vec \<Rightarrow> vec \<Rightarrow> real" where
  "dot a b = fst a * fst b + snd a * snd b"

definition length_squared :: "vec \<Rightarrow> real" where
  "length_squared a = fst a * fst a + snd a * snd a"

definition vlength :: "vec \<Rightarrow> real" where
  "vlength a = sqrt (length_squared a)"

datatype error = IndexError | ValueError

text \<open>
  \<^verbatim>\<open>Vector2.normalize()\<close> raises \<^verbatim>\<open>ValueError\<close> on a vector of length zero
  and otherwise divides the coordinates by the length.
\<close>

definition normalize :: "vec \<Rightarrow> error + vec" where
  "normalize a = (if vlength a = 0 then Inl ValueError else Inr (vdiv a (vlength a)))"

text \<open>\<^verbatim>\<open>xs[i]\<close> for \<open>i \<ge> 0\<close>: \<^verbatim>\<open>IndexError\<close> past the end of the list.\<close>

definition index :: "'a list \<Rightarrow> nat \<Rightarrow> error + 'a" where
  "index xs i = (if i < length xs then Inr (xs ! i) else Inl IndexError)"

subsection \<open>Module constants (lines 20 to 29)\<close>

definition WIDTH :: real where "WIDTH = 900"
definition HEIGHT :: real where "HEIGHT = 700"
definition BALL_RADIUS :: real where "BALL_RADIUS = 18"
definition BALL_MASS :: real where "BALL_MASS = 1"
definition RESTITUTION :: real where "RESTITUTION = 85 / 100"
definition FRICTION :: real where "FRICTION = 2 / 10"
definition HEX_RADIUS :: real where "HEX_RADIUS = 240"
definition HEX_CENTER :: vec where "HEX_CENTER = (450, 350)"
definition GRAVITY :: vec where "GRAVITY = (0, 900)"
definition ANGULAR_SPEED :: real where "ANGULAR_SPEED = 25 * pi / 180"
definition K_ESCAPE :: int where "K_ESCAPE = 27"

text \<open>
  The specification speaks of other gravity vectors and of a wall that does not turn, so
  the two constants \<^verbatim>\<open>GRAVITY\<close> and \<^verbatim>\<open>ANGULAR_SPEED\<close> are read through a
  configuration; \<open>module_config\<close> holds the values the module defines.
\<close>

record config =
  gravity :: vec
  angular_speed :: real

definition module_config :: config where
  "module_config = \<lparr>gravity = GRAVITY, angular_speed = ANGULAR_SPEED\<rparr>"

subsection \<open>The store, the ball and the drag state\<close>

type_synonym ref = nat

text \<open>
  \<open>heap\<close> maps the address of a vector object to its current value and \<open>fresh\<close> is the
  next unused address. \<open>ball_pos\<close> and \<open>ball_vel\<close> are the fields of the one
  \<^verbatim>\<open>Ball\<close>, the \<open>drag_\<close> fields those of the one \<^verbatim>\<open>DragState\<close>;
  \<open>angle\<close> and \<open>running\<close> are the local variables of \<^verbatim>\<open>main\<close>.
\<close>

record sim =
  heap :: "ref \<Rightarrow> vec"
  fresh :: ref
  ball_pos :: ref
  ball_vel :: ref
  drag_active :: bool
  drag_grab_offset :: ref
  drag_last_mouse :: ref
  drag_throw_vel :: ref
  angle :: real
  running :: bool

text \<open>Creating a vector object, and changing one in place.\<close>

definition alloc :: "sim \<Rightarrow> vec \<Rightarrow> ref \<times> sim" where
  "alloc s v = (fresh s, s\<lparr>heap := (heap s)(fresh s := v), fresh := Suc (fresh s)\<rparr>)"

definition store :: "sim \<Rightarrow> ref \<Rightarrow> vec \<Rightarrow> sim" where
  "store s r v = s\<lparr>heap := (heap s)(r := v)\<rparr>"

definition ball_position :: "sim \<Rightarrow> vec" where
  "ball_position s = heap s (ball_pos s)"

definition ball_velocity :: "sim \<Rightarrow> vec" where
  "ball_velocity s = heap s (ball_vel s)"

definition grab_offset :: "sim \<Rightarrow> vec" where
  "grab_offset s = heap s (drag_grab_offset s)"

definition last_mouse :: "sim \<Rightarrow> vec" where
  "last_mouse s = heap s (drag_last_mouse s)"

definition throw_vel :: "sim \<Rightarrow> vec" where
  "throw_vel s = heap s (drag_throw_vel s)"

text \<open>
  The state at the first test of \<^verbatim>\<open>while running\<close>. Addresses 0, 1 and 2 are the
  three default vectors of the \<^verbatim>\<open>DragState\<close> class (lines 47 to 49), 3 and 4 the
  position and velocity of the ball (line 115).
\<close>

definition initial_state :: sim where
  "initial_state =
     \<lparr>heap = (\<lambda>r. (0, 0))(3 := (WIDTH * 0.5, HEIGHT * 0.5 - 120), 4 := (180, 0)),
      fresh = 5,
      ball_pos = 3,
      ball_vel = 4,
      drag_active = False,
      drag_grab_offset = 0,
      drag_last_mouse = 1,
      drag_throw_vel = 2,
      angle = 0,
      running = True\<rparr>"

text \<open>\<^verbatim>\<open>Ball.apply_force\<close> and \<^verbatim>\<open>Ball.integrate\<close>: both change a vector in place.\<close>

definition apply_force :: "sim \<Rightarrow> vec \<Rightarrow> real \<Rightarrow> sim" where
  "apply_force s force dt =
     store s (ball_vel s) (vadd (heap s (ball_vel s)) (vmul (vdiv force BALL_MASS) dt))"

definition integrate :: "sim \<Rightarrow> real \<Rightarrow> sim" where
  "integrate s dt =
     store s (ball_pos s) (vadd (heap s (ball_pos s)) (vmul (heap s (ball_vel s)) dt))"

text \<open>\<^verbatim>\<open>DragState.reset\<close>: the flag is cleared, two vectors are zeroed in place.\<close>

definition reset :: "sim \<Rightarrow> sim" where
  "reset s =
     (let s1 = s\<lparr>drag_active := False\<rparr>;
          s2 = store s1 (drag_grab_offset s1) (0, 0);
          s3 = store s2 (drag_throw_vel s2) (0, 0)
      in s3)"

subsection \<open>Geometry\<close>

definition hexagon_vertices :: "vec \<Rightarrow> real \<Rightarrow> real \<Rightarrow> vec list" where
  "hexagon_vertices center radius ang =
     map (\<lambda>i. let theta = ang + real i * (2 * pi) / 6
               in (fst center + radius * cos theta, snd center + radius * sin theta))
         [0..<6]"

subsection \<open>Collision resolution\<close>

text \<open>
  Lines 73 to 82 of \<^verbatim>\<open>resolve_collision\<close>: the normal of the edge from \<open>a\<close> to
  \<open>b\<close>. \<open>Inr None\<close> is the \<^verbatim>\<open>continue\<close> of line 76.
\<close>

definition inward_normal :: "vec \<Rightarrow> vec \<Rightarrow> error + vec option" where
  "inward_normal a b =
     (let edge = vsub b a;
          normal = (- snd edge, fst edge)
      in if length_squared normal = 0 then Inr None
         else case normalize normal of
                Inl e \<Rightarrow> Inl e
              | Inr normal \<Rightarrow>
                  let to_center = vsub HEX_CENTER (vmul (vadd a b) 0.5)
                  in Inr (Some (if dot normal to_center < 0 then vneg normal else normal)))"

text \<open>Lines 84 to 106: distance, positional correction and impulses for one edge.\<close>

definition collide :: "config \<Rightarrow> sim \<Rightarrow> vec \<Rightarrow> vec \<Rightarrow> sim" where
  "collide cfg s a normal =
     (let dist = dot (vsub (heap s (ball_pos s)) a) normal;
          penetration = BALL_RADIUS - dist
      in if penetration > 0 then
           let s1 = store s (ball_pos s) (vadd (heap s (ball_pos s)) (vmul normal penetration));
               wall_point = heap s1 (ball_pos s1);
               radial = vsub wall_point HEX_CENTER;
               wall_vel = (- angular_speed cfg * snd radial, angular_speed cfg * fst radial);
               rel_vel = vsub (heap s1 (ball_vel s1)) wall_vel;
               vn = dot rel_vel normal
           in if vn < 0 then
                let s2 = store s1 (ball_vel s1)
                           (vsub (heap s1 (ball_vel s1)) (vmul normal ((1 + RESTITUTION) * vn)));
                    tangent = (- snd normal, fst normal);
                    vt = dot rel_vel tangent;
                    friction_impulse = - vt * FRICTION;
                    s3 = store s2 (ball_vel s2)
                           (vadd (heap s2 (ball_vel s2)) (vmul tangent friction_impulse))
                in s3
              else s1
         else s)"

text \<open>The body of the loop of \<^verbatim>\<open>resolve_collision\<close> for edge \<open>i\<close>.\<close>

definition resolve_edge :: "config \<Rightarrow> sim \<Rightarrow> vec list \<Rightarrow> nat \<Rightarrow> error + sim" where
  "resolve_edge cfg s vertices i =
     (case index vertices i of
        Inl e \<Rightarrow> Inl e
      | Inr a \<Rightarrow>
          (case index vertices ((i + 1) mod 6) of
             Inl e \<Rightarrow> Inl e
           | Inr b \<Rightarrow>
               (case inward_normal a b of
                  Inl e \<Rightarrow> Inl e
                | Inr None \<Rightarrow> Inr s
                | Inr (Some normal) \<Rightarrow> Inr (collide cfg s a normal))))"

fun resolve_loop :: "config \<Rightarrow> vec list \<Rightarrow> nat list \<Rightarrow> sim \<Rightarrow> error + sim" where
  "resolve_loop cfg vertices [] s = Inr s"
| "resolve_loop cfg vertices (i # rest) s =
     (case resolve_edge cfg s vertices i of
        Inl e \<Rightarrow> Inl e
      | Inr s' \<Rightarrow> resolve_loop cfg vertices rest s')"

text \<open>
  \<^verbatim>\<open>resolve_collision(ball, vertices, angle, dt)\<close>; the parameters \<^verbatim>\<open>angle\<close> and
  \<^verbatim>\<open>dt\<close> are never read and are left out.
\<close>

definition resolve_collision :: "config \<Rightarrow> sim \<Rightarrow> vec list \<Rightarrow> error + sim" where
  "resolve_collision cfg s vertices = resolve_loop cfg vertices [0..<6] s"

subsection \<open>The main loop\<close>

datatype event =
    QUIT
  | KEYDOWN int
  | MOUSEBUTTONDOWN nat vec
  | MOUSEBUTTONUP nat
  | OTHER

text \<open>One pass of the event loop, lines 123 to 137.\<close>

fun handle_event :: "sim \<Rightarrow> event \<Rightarrow> sim" where
  "handle_event s QUIT = s\<lparr>running := False\<rparr>"
| "handle_event s (KEYDOWN key) = (if key = K_ESCAPE then s\<lparr>running := False\<rparr> else s)"
| "handle_event s (MOUSEBUTTONDOWN button pos) =
     (if button = 1 then
        let (mouse, s1) = alloc s pos
        in if vlength (vsub (heap s1 mouse) (heap s1 (ball_pos s1))) \<le> BALL_RADIUS + 4 then
             let s2 = s1\<lparr>drag_active := True\<rparr>;
                 (offset, s3) = alloc s2 (vsub (heap s2 (ball_pos s2)) (heap s2 mouse));
                 s4 = s3\<lparr>drag_grab_offset := offset\<rparr>;
                 s5 = s4\<lparr>drag_last_mouse := mouse\<rparr>;
                 s6 = store s5 (drag_throw_vel s5) (0, 0)
             in s6
           else s1
      else s)"
| "handle_event s (MOUSEBUTTONUP button) =
     (if button = 1 then
        reset (if drag_active s then s\<lparr>ball_vel := drag_throw_vel s\<rparr> else s)
      else s)"
| "handle_event s OTHER = s"

text \<open>Lines 140 to 143, the branch taken while the ball is held.\<close>

definition drag_update :: "sim \<Rightarrow> vec \<Rightarrow> real \<Rightarrow> sim" where
  "drag_update s mouse_pos dt =
     (let (mouse, s1) = alloc s mouse_pos;
          (pos, s2) = alloc s1 (vadd (heap s1 mouse) (heap s1 (drag_grab_offset s1)));
          s3 = s2\<lparr>ball_pos := pos\<rparr>;
          (tv, s4) = alloc s3 (vdiv (vsub (heap s3 mouse) (heap s3 (drag_last_mouse s3)))
                                    (max dt (1 / 1000000)));
          s5 = s4\<lparr>drag_throw_vel := tv\<rparr>;
          s6 = s5\<lparr>drag_last_mouse := mouse\<rparr>
      in s6)"

text \<open>Lines 145 and 146, the branch taken while the ball is free.\<close>

definition free_motion :: "config \<Rightarrow> sim \<Rightarrow> real \<Rightarrow> sim" where
  "free_motion cfg s dt = integrate (apply_force s (gravity cfg) dt) dt"

text \<open>Lines 139 to 146.\<close>

definition motion :: "config \<Rightarrow> sim \<Rightarrow> real \<Rightarrow> vec \<Rightarrow> sim" where
  "motion cfg s dt mouse_pos =
     (if drag_active s then drag_update s mouse_pos dt else free_motion cfg s dt)"

text \<open>
  One iteration of \<^verbatim>\<open>while running\<close>. The clock's \<open>dt\<close>, the events of
  \<^verbatim>\<open>pygame.event.get()\<close> and the pointer position of
  \<^verbatim>\<open>pygame.mouse.get_pos()\<close> are the inputs; drawing reads the state and is left
  out. \<open>before_collision\<close> is lines 121 to 148, \<open>tick\<close> adds lines 149 and 150.
\<close>

definition before_collision :: "config \<Rightarrow> sim \<Rightarrow> real \<Rightarrow> event list \<Rightarrow> vec \<Rightarrow> sim" where
  "before_collision cfg s dt events mouse_pos =
     (let s1 = foldl handle_event s events;
          s2 = motion cfg s1 dt mouse_pos
      in s2\<lparr>angle := angle s2 + angular_speed cfg * dt\<rparr>)"

definition tick :: "config \<Rightarrow> sim \<Rightarrow> real \<Rightarrow> event list \<Rightarrow> vec \<Rightarrow> error + sim" where
  "tick cfg s dt events mouse_pos =
     (let s3 = before_collision cfg s dt events mouse_pos;
          vertices = hexagon_vertices HEX_CENTER HEX_RADIUS (angle s3)
      in resolve_collision cfg s3 vertices)"

text \<open>The loop over a finite sequence of frames; it stops once \<open>running\<close> is cleared.\<close>

fun run :: "config \<Rightarrow> sim \<Rightarrow> (real \<times> event list \<times> vec) list \<Rightarrow> error + sim" where
  "run cfg s [] = Inr s"
| "run cfg s ((dt, events, mouse_pos) # frames) =
     (if running s then
        case tick cfg s dt events mouse_pos of
          Inl e \<Rightarrow> Inl e
        | Inr s' \<Rightarrow> run cfg s' frames
      else Inr s)"

subsection \<open>Notions used to state the properties\<close>

text \<open>
  The point at polar angle \<open>t\<close> and distance \<open>r\<close> from \<^verbatim>\<open>HEX_CENTER\<close>, and the
  direction \<open>hex_phi ang i\<close> from the centre to the middle of edge \<open>i\<close> of the hexagon
  at rotation \<open>ang\<close>: the edge runs from polar angle \<open>hex_phi ang i - pi / 6\<close> to
  \<open>hex_phi ang i + pi / 6\<close>.
\<close>

definition hex_point :: "real \<Rightarrow> real \<Rightarrow> vec" where
  "hex_point r t = (fst HEX_CENTER + r * cos t, snd HEX_CENTER + r * sin t)"

definition hex_phi :: "real \<Rightarrow> nat \<Rightarrow> real" where
  "hex_phi ang i = ang + real i * (2 * pi) / 6 + pi / 6"

text \<open>
  The signed distance of a point from edge \<open>i\<close> along the normal that
  \<^verbatim>\<open>resolve_collision\<close> computes for that edge (line 85), and containment: the
  centre of the ball is at least \<^verbatim>\<open>BALL_RADIUS\<close> inside every edge that has a normal.
\<close>

definition edge_distance :: "vec list \<Rightarrow> nat \<Rightarrow> vec \<Rightarrow> real option" where
  "edge_distance vertices i p =
     (case index vertices i of
        Inl e \<Rightarrow> None
      | Inr a \<Rightarrow>
          (case index vertices ((i + 1) mod 6) of
             Inl e \<Rightarrow> None
           | Inr b \<Rightarrow>
               (case inward_normal a b of
                  Inr (Some normal) \<Rightarrow> Some (dot (vsub p a) normal)
                | _ \<Rightarrow> None)))"

definition contained :: "vec list \<Rightarrow> vec \<Rightarrow> bool" where
  "contained vertices p =
     list_all (\<lambda>i. case edge_distance vertices i p of None \<Rightarrow> True | Some d \<Rightarrow> BALL_RADIUS \<le> d)
       [0..<6]"

text \<open>The same for the ball of a state and the hexagon at the angle of that state.\<close>

definition ball_edge_distance :: "nat \<Rightarrow> sim \<Rightarrow> real option" where
  "ball_edge_distance i s =
     edge_distance (hexagon_vertices HEX_CENTER HEX_RADIUS (angle s)) i (ball_position s)"

definition ball_contained :: "sim \<Rightarrow> bool" where
  "ball_contained s = contained (hexagon_vertices HEX_CENTER HEX_RADIUS (angle s)) (ball_position s)"

text \<open>
  The position vector of the ball and the grab offset are objects of their own, and the
  objects the fields point to have been created. This holds at the start and after every
  step. The velocity of the ball and the throw velocity may be one object.
\<close>

definition well_formed :: "sim \<Rightarrow> bool" where
  "well_formed s \<longleftrightarrow>
     ball_pos s \<noteq> ball_vel s \<and> ball_pos s \<noteq> drag_throw_vel s
     \<and> ball_pos s \<noteq> drag_grab_offset s
     \<and> ball_vel s \<noteq> drag_grab_offset s \<and> drag_throw_vel s \<noteq> drag_grab_offset s
     \<and> ball_pos s < fresh s \<and> ball_vel s < fresh s
     \<and> drag_throw_vel s < fresh s \<and> drag_grab_offset s < fresh s"

text \<open>The velocity of the ball right after a release of the left button is handled.\<close>

definition velocity_after_pointer_up :: "sim \<Rightarrow> vec" where
  "velocity_after_pointer_up s = ball_velocity (handle_event s (MOUSEBUTTONUP 1))"

text \<open>
  Frames at 60 per second: the button goes down on the ball where it starts, the pointer
  moves 10 units to the right in the next frame, and the button is released in the third.
\<close>

definition grab_then_drag :: "(real \<times> event list \<times> vec) list" where
  "grab_then_drag =
     [(1 / 60, [MOUSEBUTTONDOWN 1 (450, 230)], (450, 230)),
      (1 / 60, [], (460, 230))]"

definition release :: "(real \<times> event list \<times> vec) list" where
  "release = [(1 / 60, [MOUSEBUTTONUP 1], (460, 230))]"

text \<open>
  Names for the quantities of lines 89 to 97: the position after the correction of line 89,
  the velocity of the wall at a point, and \<^verbatim>\<open>vn\<close>, the normal component of the
  velocity of the ball relative to the wall.
\<close>

definition corrected_position :: "sim \<Rightarrow> vec \<Rightarrow> vec \<Rightarrow> vec" where
  "corrected_position s a normal =
     vadd (ball_position s) (vmul normal (BALL_RADIUS - dot (vsub (ball_position s) a) normal))"

definition wall_velocity :: "config \<Rightarrow> vec \<Rightarrow> vec" where
  "wall_velocity cfg wall_point =
     (let radial = vsub wall_point HEX_CENTER
      in (- angular_speed cfg * snd radial, angular_speed cfg * fst radial))"

definition approach_speed :: "config \<Rightarrow> sim \<Rightarrow> vec \<Rightarrow> vec \<Rightarrow> real" where
  "approach_speed cfg s a normal =
     dot (vsub (ball_velocity s) (wall_velocity cfg (corrected_position s a normal))) normal"

text \<open>A hexagon that does not turn, and a ball that moves into a wall at speed 100.\<close>

definition still_config :: config where
  "still_config = \<lparr>gravity = GRAVITY, angular_speed = 0\<rparr>"

definition approaching_state :: sim where
  "approaching_state = store (store initial_state 3 (10, 1 / 2)) 4 (- 100, 7)"

text \<open>
  What the pass over the six edges of the hexagon does to the position of the ball:
  \<open>push u\<close> is the correction of line 89 for the edge whose outward direction is \<open>u\<close>,
  and \<open>hex_dir ang i\<close> is that direction for edge \<open>i\<close>.
\<close>

definition push :: "vec \<Rightarrow> vec \<Rightarrow> vec" where
  "push u p =
     (if 0 < BALL_RADIUS - (HEX_RADIUS * (sqrt 3 / 2) - dot (vsub p HEX_CENTER) u)
      then vadd p (vmul (vneg u)
                    (BALL_RADIUS - (HEX_RADIUS * (sqrt 3 / 2) - dot (vsub p HEX_CENTER) u)))
      else p)"

definition hex_dir :: "real \<Rightarrow> nat \<Rightarrow> vec" where
  "hex_dir ang i = (cos (hex_phi ang i), sin (hex_phi ang i))"

text \<open>
  Slow frames. The hexagon turns by 25 degrees a second, so after 4.8 seconds it stands at
  exactly 120 degrees and its vertices have coordinates in closed form. \<open>stall\<close> is one
  frame of 4.8 seconds with no event; \<open>slow_grab\<close> and \<open>slow_drag\<close> are two frames of 2.4
  seconds, the button going down on the ball in the first and the pointer standing at
  \<open>(450, 690)\<close>, near the lower border of the window, in the second.
\<close>

definition stall :: "(real \<times> event list \<times> vec) list" where
  "stall = [(24 / 5, [], (0, 0))]"

definition slow_grab :: "(real \<times> event list \<times> vec) list" where
  "slow_grab = [(12 / 5, [MOUSEBUTTONDOWN 1 (450, 230)], (450, 230))]"

definition slow_drag :: "(real \<times> event list \<times> vec) list" where
  "slow_drag = [(12 / 5, [], (450, 690))]"

text \<open>
  The pass in two coordinates. \<open>offset ang i p\<close> is how far the point \<open>p\<close> lies from
  \<^verbatim>\<open>HEX_CENTER\<close> in the outward direction of edge \<open>i\<close>, and \<open>slack\<close> is the
  inradius of the hexagon less \<^verbatim>\<open>BALL_RADIUS\<close>: the ball is \<^verbatim>\<open>BALL_RADIUS\<close>
  inside edge \<open>i\<close> when its offset is at most \<open>slack\<close>. The offsets of edges 0 and 1
  determine the other four; \<open>within4 t a b\<close> says that all six are at most \<open>4 * t\<close>.
\<close>

definition offset :: "real \<Rightarrow> nat \<Rightarrow> vec \<Rightarrow> real" where
  "offset ang i p = dot (vsub p HEX_CENTER) (hex_dir ang i)"

definition slack :: real where
  "slack = HEX_RADIUS * (sqrt 3 / 2) - BALL_RADIUS"

definition within4 :: "real \<Rightarrow> real \<Rightarrow> real \<Rightarrow> bool" where
  "within4 t a b \<longleftrightarrow>
     a \<le> 4 * t \<and> b \<le> 4 * t \<and> b - a \<le> 4 * t \<and> - a \<le> 4 * t \<and> - b \<le> 4 * t \<and> a - b \<le> 4 * t"

section \<open>Properties\<close>

subsection \<open>Vectors and the store\<close>

lemmas vec_defs = vadd_def vsub_def vneg_def vmul_def vdiv_def dot_def length_squared_def

lemma length_squared_nonneg: "0 \<le> length_squared a"
  by (simp add: length_squared_def)

lemma vlength_zero_iff: "vlength a = 0 \<longleftrightarrow> length_squared a = 0"
  by (simp add: vlength_def)

lemma length_squared_vneg: "length_squared (vneg v) = length_squared v"
  by (simp add: length_squared_def vneg_def)

lemma length_squared_normalize:
  assumes "normalize v = Inr n"
  shows "length_squared n = 1"
proof -
  from assms have nz: "vlength v \<noteq> 0" and n: "n = vdiv v (vlength v)"
    by (auto simp: normalize_def split: if_splits)
  have sq: "vlength v * vlength v = length_squared v"
    by (simp add: vlength_def length_squared_nonneg)
  have "length_squared n = length_squared v / (vlength v * vlength v)"
    by (simp add: n vdiv_def length_squared_def add_divide_distrib)
  with nz sq show ?thesis by (simp add: vlength_zero_iff)
qed

lemma apply_force_zero: "apply_force s force 0 = s"
  by (simp add: apply_force_def vec_defs store_def)

lemma integrate_zero: "integrate s 0 = s"
  by (simp add: integrate_def vec_defs store_def)

subsection \<open>The normal of an edge\<close>

lemma inward_normal_not_error: "inward_normal a b \<noteq> Inl e"
  by (simp add: inward_normal_def Let_def normalize_def vlength_zero_iff)

lemma inward_normal_unit: "inward_normal a b = Inr (Some n) \<Longrightarrow> length_squared n = 1"
  by (auto simp: inward_normal_def Let_def length_squared_vneg split: if_splits sum.splits
           dest: length_squared_normalize)

lemma inward_normal_inward:
  "inward_normal a b = Inr (Some n) \<Longrightarrow> 0 \<le> dot n (vsub HEX_CENTER (vmul (vadd a b) 0.5))"
  by (auto simp: inward_normal_def Let_def dot_def vneg_def split: if_splits sum.splits)

lemma inward_normal_defined:
  assumes "vsub b a \<noteq> (0, 0)"
  shows "\<exists>n. inward_normal a b = Inr (Some n)"
proof -
  from assms have "length_squared (- snd (vsub b a), fst (vsub b a)) \<noteq> 0"
    by (cases "vsub b a") (auto simp: length_squared_def add_nonneg_eq_0_iff)
  then show ?thesis
    using inward_normal_not_error[of a b]
    by (cases "inward_normal a b") (auto simp: inward_normal_def Let_def split: if_splits sum.splits)
qed


subsection \<open>Errors of collision resolution\<close>



lemma resolve_edge_total:
  "i < length vs \<Longrightarrow> (i + 1) mod 6 < length vs \<Longrightarrow> \<exists>s'. resolve_edge cfg s vs i = Inr s'"
  by (auto simp: resolve_edge_def index_def inward_normal_not_error split: sum.splits option.splits)

lemma resolve_loop_total:
  "\<forall>i \<in> set is. i < length vs \<and> (i + 1) mod 6 < length vs \<Longrightarrow>
   \<exists>s'. resolve_loop cfg vs is s = Inr s'"
proof (induction "is" arbitrary: s)
  case Nil
  then show ?case by simp
next
  case (Cons i rest)
  then obtain s1 where "resolve_edge cfg s vs i = Inr s1"
    using resolve_edge_total[of i vs cfg s] by auto
  with Cons show ?case by simp
qed

lemma resolve_collision_total: "6 \<le> length vs \<Longrightarrow> \<exists>s'. resolve_collision cfg s vs = Inr s'"
  unfolding resolve_collision_def
  by (rule resolve_loop_total) (auto intro: less_le_trans[of _ 6])

subsection \<open>Claims about the normal, the guard and a zero time step\<close>

text \<open>
  C7. For every edge of nonzero length that \<^verbatim>\<open>resolve_collision\<close> processes, the
  normal handed to the distance, correction and impulse code is a unit vector whose dot
  product with the vector from the midpoint of the edge to \<^verbatim>\<open>HEX_CENTER\<close> is not
  negative, whatever the order of the two vertices.
\<close>

theorem normal_points_inward:
  assumes "index vertices i = Inr a"
    and "index vertices ((i + 1) mod 6) = Inr b"
    and "vsub b a \<noteq> (0, 0)"
  shows "\<exists>n. inward_normal a b = Inr (Some n)
            \<and> resolve_edge cfg s vertices i = Inr (collide cfg s a n)
            \<and> length_squared n = 1
            \<and> 0 \<le> dot n (vsub HEX_CENTER (vmul (vadd a b) 0.5))"
proof -
  from assms(3) obtain n where n: "inward_normal a b = Inr (Some n)"
    using inward_normal_defined by blast
  have "resolve_edge cfg s vertices i = Inr (collide cfg s a n)"
    unfolding resolve_edge_def assms(1,2) by (simp add: n)
  with n show ?thesis
    using inward_normal_unit[OF n] inward_normal_inward[OF n] by blast
qed

theorem normal_points_inward_witness:
  "index [(0, 0), (0, 1)] 0 = Inr ((0, 0) :: vec)
   \<and> index [(0, 0), (0, 1)] ((0 + 1) mod 6) = Inr ((0, 1) :: vec)
   \<and> vsub (0, 1) (0, 0) \<noteq> (0, 0)
   \<and> (\<exists>n. inward_normal (0, 0) (0, 1) = Inr (Some n)
           \<and> resolve_edge module_config initial_state [(0, 0), (0, 1)] 0
               = Inr (collide module_config initial_state (0, 0) n)
           \<and> length_squared n = 1
           \<and> 0 \<le> dot n (vsub HEX_CENTER (vmul (vadd (0, 0) (0, 1)) 0.5)))"
proof -
  have h1: "index [(0, 0), (0, 1)] 0 = Inr (0, 0 :: real)"
    and h2: "index [(0, 0), (0, 1)] ((0 + 1) mod 6) = Inr (0, 1 :: real)"
    and h3: "vsub (0, 1) (0, 0) \<noteq> (0, 0)"
    by (simp_all add: index_def vsub_def)
  show ?thesis
    using h1 h2 h3 normal_points_inward[OF h1 h2 h3, of module_config initial_state] by simp
qed

text \<open>
  C8. With \<open>dt = 0\<close> the force application and the position integration change nothing:
  the velocity and the position of the ball, and indeed the whole state, stay as they were.
\<close>

theorem zero_step_is_identity:
  "ball_velocity (apply_force s force 0) = ball_velocity s
   \<and> ball_position (integrate (apply_force s force 0) 0) = ball_position s
   \<and> ball_velocity (free_motion cfg s 0) = ball_velocity s
   \<and> ball_position (free_motion cfg s 0) = ball_position s
   \<and> free_motion cfg s 0 = s"
  by (simp add: free_motion_def apply_force_zero integrate_zero)




subsection \<open>The edges of the hexagon\<close>

lemma length_hexagon_vertices: "length (hexagon_vertices c r ang) = 6"
  by (simp add: hexagon_vertices_def)

lemma hexagon_vertices_nth:
  "i < 6 \<Longrightarrow> hexagon_vertices c r ang ! i =
     (fst c + r * cos (ang + real i * (2 * pi) / 6), snd c + r * sin (ang + real i * (2 * pi) / 6))"
  by (simp add: hexagon_vertices_def Let_def del: upt_Suc)

lemma hex_vertex_this:
  "i < 6 \<Longrightarrow> hexagon_vertices HEX_CENTER r ang ! i = hex_point r (hex_phi ang i - pi / 6)"
  by (simp add: hexagon_vertices_nth hex_point_def hex_phi_def)

lemma hex_vertex_next:
  assumes "i < 6"
  shows "hexagon_vertices HEX_CENTER r ang ! ((i + 1) mod 6) = hex_point r (hex_phi ang i + pi / 6)"
proof (cases "i = 5")
  case True
  have "hex_phi ang 5 + pi / 6 = ang + 2 * pi" by (simp add: hex_phi_def)
  then show ?thesis using True by (simp add: hexagon_vertices_nth hex_point_def)
next
  case False
  with assms have lt: "i + 1 < 6" by simp
  then have m: "(i + 1) mod 6 = i + 1" by simp
  have "ang + real (i + 1) * (2 * pi) / 6 = hex_phi ang i + pi / 6"
    by (simp add: hex_phi_def field_simps)
  then show ?thesis
    using lt m by (simp add: hexagon_vertices_nth hex_point_def del: of_nat_add of_nat_Suc)
qed

lemma cos_shift:
  "cos (t - pi / 6) = cos t * (sqrt 3 / 2) + sin t / 2"
  "cos (t + pi / 6) = cos t * (sqrt 3 / 2) - sin t / 2"
  "sin (t - pi / 6) = sin t * (sqrt 3 / 2) - cos t / 2"
  "sin (t + pi / 6) = sin t * (sqrt 3 / 2) + cos t / 2"
  by (simp_all add: cos_diff cos_add sin_diff sin_add cos_30 sin_30)

lemma edge_vec:
  "vsub (hex_point r (t + pi / 6)) (hex_point r (t - pi / 6)) = (- r * sin t, r * cos t)"
  by (simp add: hex_point_def vsub_def cos_shift algebra_simps)

text \<open>The normal the program computes for an edge of the hexagon points at the centre.\<close>

lemma inward_normal_hex:
  assumes "0 < r"
  shows "inward_normal (hex_point r (t - pi / 6)) (hex_point r (t + pi / 6))
         = Inr (Some (- cos t, - sin t))"
proof -
  let ?a = "hex_point r (t - pi / 6)" and ?b = "hex_point r (t + pi / 6)"
  let ?n = "(- (r * cos t), - (r * sin t))"
  have ls: "length_squared ?n = r * r"
  proof -
    have "length_squared ?n = r * r * (cos t * cos t + sin t * sin t)"
      by (simp add: length_squared_def algebra_simps del: sin_cos_squared_add3)
    then show ?thesis by simp
  qed
  have "vlength ?n = sqrt (r * r)" unfolding vlength_def ls ..
  then have len: "vlength ?n = r" using assms by simp
  have nz: "length_squared ?n \<noteq> 0" using assms by (simp add: ls)
  have norm: "normalize ?n = Inr (- cos t, - sin t)"
    using assms by (simp add: normalize_def len vdiv_def)
  have mid: "vsub HEX_CENTER (vmul (vadd ?a ?b) 0.5)
             = (- r * (sqrt 3 / 2) * cos t, - r * (sqrt 3 / 2) * sin t)"
    by (simp add: hex_point_def vec_defs cos_shift algebra_simps)
  have "dot (- cos t, - sin t) (- r * (sqrt 3 / 2) * cos t, - r * (sqrt 3 / 2) * sin t)
        = r * (sqrt 3 / 2) * (cos t * cos t + sin t * sin t)"
    by (simp add: dot_def algebra_simps del: sin_cos_squared_add3)
  then have d: "dot (- cos t, - sin t) (- r * (sqrt 3 / 2) * cos t, - r * (sqrt 3 / 2) * sin t)
                = r * (sqrt 3 / 2)"
    by simp
  have pos: "\<not> r * (sqrt 3 / 2) < 0" using assms by (simp add: not_less)
  have nrm: "(- snd (vsub ?b ?a), fst (vsub ?b ?a)) = ?n"
    by (simp add: edge_vec)
  show ?thesis
    unfolding inward_normal_def Let_def nrm mid
    using nz norm d pos by simp
qed

lemma dot_unit_le: "x * cos t + y * sin t \<le> sqrt (x * x + y * y)"
proof (rule real_le_rsqrt)
  have "(x * x + y * y) * (cos t * cos t + sin t * sin t) - (x * cos t + y * sin t)\<^sup>2
        = (x * sin t - y * cos t)\<^sup>2"
    by (simp add: power2_eq_square algebra_simps del: sin_cos_squared_add3)
  then have "(x * x + y * y) - (x * cos t + y * sin t)\<^sup>2 = (x * sin t - y * cos t)\<^sup>2"
    by simp
  moreover have "0 \<le> (x * sin t - y * cos t)\<^sup>2" by simp
  ultimately show "(x * cos t + y * sin t)\<^sup>2 \<le> x * x + y * y" by linarith
qed

text \<open>The distance from an edge of the hexagon is the inradius less the outward offset.\<close>

lemma hex_edge_dist:
  "dot (vsub p (hex_point r (t - pi / 6))) (- cos t, - sin t)
     = r * (sqrt 3 / 2) - dot (vsub p HEX_CENTER) (cos t, sin t)"
proof -
  have "dot (vsub p (hex_point r (t - pi / 6))) (- cos t, - sin t)
     = r * (sqrt 3 / 2) * (cos t * cos t + sin t * sin t) - dot (vsub p HEX_CENTER) (cos t, sin t)"
    by (simp add: hex_point_def vec_defs cos_shift algebra_simps del: sin_cos_squared_add3)
  then show ?thesis by simp
qed

lemma resolve_edge_hex:
  assumes "0 < r" "i < 6"
  shows "resolve_edge cfg s (hexagon_vertices HEX_CENTER r ang) i =
           Inr (collide cfg s (hex_point r (hex_phi ang i - pi / 6))
                  (- cos (hex_phi ang i), - sin (hex_phi ang i)))"
proof -
  let ?vs = "hexagon_vertices HEX_CENTER r ang"
  have m: "(i + 1) mod 6 < 6" by simp
  have a: "?vs ! i = hex_point r (hex_phi ang i - pi / 6)"
    using assms by (simp add: hex_vertex_this)
  have b: "?vs ! ((i + 1) mod 6) = hex_point r (hex_phi ang i + pi / 6)"
    using assms by (simp only: hex_vertex_next)
  show ?thesis
    unfolding resolve_edge_def index_def length_hexagon_vertices a b
    using assms m
    by (simp add: inward_normal_hex del: One_nat_def)
qed

lemma edge_distance_hex:
  assumes "0 < r" "i < 6"
  shows "edge_distance (hexagon_vertices HEX_CENTER r ang) i p
         = Some (r * (sqrt 3 / 2) - dot (vsub p HEX_CENTER) (cos (hex_phi ang i), sin (hex_phi ang i)))"
proof -
  let ?vs = "hexagon_vertices HEX_CENTER r ang"
  have m: "(i + 1) mod 6 < 6" by simp
  have a: "?vs ! i = hex_point r (hex_phi ang i - pi / 6)"
    using assms by (simp add: hex_vertex_this)
  have b: "?vs ! ((i + 1) mod 6) = hex_point r (hex_phi ang i + pi / 6)"
    using assms by (simp only: hex_vertex_next)
  show ?thesis
    unfolding edge_distance_def index_def length_hexagon_vertices a b
    using assms m
    by (simp add: inward_normal_hex hex_edge_dist del: One_nat_def)
qed

subsection \<open>What one edge does to the ball\<close>

lemma collide_fields:
  "ball_pos (collide cfg s a n) = ball_pos s"
  "ball_vel (collide cfg s a n) = ball_vel s"
  "drag_active (collide cfg s a n) = drag_active s"
  "drag_grab_offset (collide cfg s a n) = drag_grab_offset s"
  "drag_last_mouse (collide cfg s a n) = drag_last_mouse s"
  "drag_throw_vel (collide cfg s a n) = drag_throw_vel s"
  "angle (collide cfg s a n) = angle s"
  "running (collide cfg s a n) = running s"
  "fresh (collide cfg s a n) = fresh s"
  by (simp_all add: collide_def Let_def store_def)

lemma collide_clear:
  "BALL_RADIUS \<le> dot (vsub (ball_position s) a) n \<Longrightarrow> collide cfg s a n = s"
  by (simp add: collide_def ball_position_def Let_def)

lemma collide_position:
  assumes "ball_pos s \<noteq> ball_vel s"
  shows "ball_position (collide cfg s a n) =
          (if 0 < BALL_RADIUS - dot (vsub (ball_position s) a) n
           then vadd (ball_position s) (vmul n (BALL_RADIUS - dot (vsub (ball_position s) a) n))
           else ball_position s)"
  using assms by (simp add: collide_def Let_def store_def ball_position_def)

lemma pushed_distance:
  assumes "length_squared n = 1"
  shows "dot (vsub (vadd p (vmul n (R - dot (vsub p a) n))) a) n = R"
proof -
  have "dot (vsub (vadd p (vmul n (R - dot (vsub p a) n))) a) n
        = dot (vsub p a) n + (R - dot (vsub p a) n) * length_squared n"
    by (simp add: vec_defs algebra_simps)
  with assms show ?thesis by simp
qed

lemma collide_distance:
  assumes "ball_pos s \<noteq> ball_vel s" "length_squared n = 1"
  shows "BALL_RADIUS \<le> dot (vsub (ball_position (collide cfg s a n)) a) n"
  using assms by (simp add: collide_position pushed_distance)

subsection \<open>A ball well inside the hexagon is left alone\<close>

lemma resolve_loop_id:
  "(\<And>i. i \<in> set is \<Longrightarrow> resolve_edge cfg s vs i = Inr s) \<Longrightarrow> resolve_loop cfg vs is s = Inr s"
  by (induction "is") auto

lemma hex_clear:
  assumes "vlength (vsub (ball_position s) HEX_CENTER) \<le> r * (sqrt 3 / 2) - BALL_RADIUS"
  shows "BALL_RADIUS \<le> dot (vsub (ball_position s) (hex_point r (t - pi / 6))) (- cos t, - sin t)"
proof -
  let ?d = "vsub (ball_position s) HEX_CENTER"
  have "dot ?d (cos t, sin t) \<le> vlength ?d"
    using dot_unit_le[of "fst ?d" t "snd ?d"] by (simp add: dot_def vlength_def length_squared_def)
  with assms show ?thesis by (simp add: hex_edge_dist)
qed

lemma resolve_collision_inside:
  assumes "0 < r"
    and "vlength (vsub (ball_position s) HEX_CENTER) \<le> r * (sqrt 3 / 2) - BALL_RADIUS"
  shows "resolve_collision cfg s (hexagon_vertices HEX_CENTER r ang) = Inr s"
  unfolding resolve_collision_def
proof (rule resolve_loop_id)
  fix i assume "i \<in> set [0..<6]"
  then have "i < 6" by simp
  then show "resolve_edge cfg s (hexagon_vertices HEX_CENTER r ang) i = Inr s"
    using assms by (simp add: resolve_edge_hex collide_clear hex_clear)
qed

lemma contained_inside:
  assumes "0 < r" and "vlength (vsub p HEX_CENTER) \<le> r * (sqrt 3 / 2) - BALL_RADIUS"
  shows "contained (hexagon_vertices HEX_CENTER r ang) p"
proof -
  have "BALL_RADIUS \<le> r * (sqrt 3 / 2) - dot (vsub p HEX_CENTER) (cos t, sin t)" for t
  proof -
    have "dot (vsub p HEX_CENTER) (cos t, sin t) \<le> vlength (vsub p HEX_CENTER)"
      using dot_unit_le[of "fst (vsub p HEX_CENTER)" t "snd (vsub p HEX_CENTER)"]
      by (simp add: dot_def vlength_def length_squared_def)
    with assms(2) show ?thesis by linarith
  qed
  then show ?thesis
    using assms(1) by (simp add: contained_def list_all_iff edge_distance_hex)
qed

lemma tick_inside:
  assumes "vlength (vsub (ball_position (before_collision cfg s dt evs m)) HEX_CENTER)
           \<le> 120 * sqrt 3 - 18"
  shows "tick cfg s dt evs m = Inr (before_collision cfg s dt evs m)"
  unfolding tick_def Let_def
  by (rule resolve_collision_inside) (use assms in \<open>simp_all add: HEX_RADIUS_def BALL_RADIUS_def\<close>)

lemma sqrt3_lower: "17 / 10 \<le> sqrt 3"
  by (rule real_le_rsqrt) (simp add: power2_eq_square)

lemma deep_inside:
  assumes "length_squared (vsub p HEX_CENTER) \<le> 186 * 186"
  shows "vlength (vsub p HEX_CENTER) \<le> 120 * sqrt 3 - 18"
proof -
  have "vlength (vsub p HEX_CENTER) \<le> 186"
    unfolding vlength_def using assms by (intro real_le_lsqrt) (simp_all add: power2_eq_square)
  with sqrt3_lower show ?thesis by linarith
qed

lemma run_step_inside:
  assumes "running s"
    and "length_squared (vsub (ball_position (before_collision cfg s dt evs m)) HEX_CENTER)
         \<le> 186 * 186"
  shows "run cfg s ((dt, evs, m) # frames) = run cfg (before_collision cfg s dt evs m) frames"
  using assms by (simp add: tick_inside deep_inside)

subsection \<open>The position of the ball stays an object of its own\<close>

lemmas step_defs = before_collision_def motion_def drag_update_def free_motion_def
  apply_force_def integrate_def reset_def alloc_def store_def Let_def

lemmas const_defs = WIDTH_def HEIGHT_def BALL_RADIUS_def BALL_MASS_def HEX_CENTER_def
  module_config_def GRAVITY_def

lemmas obs_defs = ball_position_def ball_velocity_def throw_vel_def grab_offset_def last_mouse_def

lemmas eval_defs = initial_state_def step_defs const_defs obs_defs vec_defs vlength_def

lemma well_formed_initial: "well_formed initial_state"
  by (simp add: well_formed_def initial_state_def)

lemma well_formed_handle_event: "well_formed s \<Longrightarrow> well_formed (handle_event s e)"
  by (cases e) (auto simp: well_formed_def alloc_def store_def reset_def Let_def)

lemma well_formed_events: "well_formed s \<Longrightarrow> well_formed (foldl handle_event s evs)"
  by (induction evs arbitrary: s) (simp_all add: well_formed_handle_event)

lemma well_formed_motion: "well_formed s \<Longrightarrow> well_formed (motion cfg s dt m)"
  by (auto simp: well_formed_def step_defs)

lemma well_formed_before_collision:
  "well_formed s \<Longrightarrow> well_formed (before_collision cfg s dt evs m)"
  using well_formed_motion[OF well_formed_events, of s cfg evs dt m]
  by (simp add: before_collision_def Let_def well_formed_def)

lemma well_formed_collide: "well_formed s \<Longrightarrow> well_formed (collide cfg s a n)"
  by (simp add: well_formed_def collide_fields)

lemma well_formed_resolve_edge:
  "well_formed s \<Longrightarrow> resolve_edge cfg s vs i = Inr s' \<Longrightarrow> well_formed s'"
  by (auto simp: resolve_edge_def well_formed_collide split: sum.splits option.splits)

lemma well_formed_resolve_loop:
  "well_formed s \<Longrightarrow> resolve_loop cfg vs is s = Inr s' \<Longrightarrow> well_formed s'"
  by (induction "is" arbitrary: s) (auto split: sum.splits dest: well_formed_resolve_edge)

lemma well_formed_tick: "well_formed s \<Longrightarrow> tick cfg s dt evs m = Inr s' \<Longrightarrow> well_formed s'"
  unfolding tick_def Let_def resolve_collision_def
  using well_formed_resolve_loop well_formed_before_collision by blast

lemma tick_total: "\<exists>s'. tick cfg s dt evs m = Inr s'"
  by (simp add: tick_def Let_def resolve_collision_total length_hexagon_vertices)

subsection \<open>Free motion\<close>

lemma free_motion_euler:
  assumes "ball_pos s \<noteq> ball_vel s"
  shows "ball_velocity (free_motion cfg s dt)
         = vadd (ball_velocity s) (vmul (vdiv (gravity cfg) BALL_MASS) dt)"
    and "ball_position (free_motion cfg s dt)
         = vadd (ball_position s) (vmul (ball_velocity (free_motion cfg s dt)) dt)"
  using assms by (simp_all add: free_motion_def apply_force_def integrate_def store_def obs_defs)

lemma before_collision_obs:
  "ball_velocity (before_collision cfg s dt evs m)
   = ball_velocity (motion cfg (foldl handle_event s evs) dt m)"
  "ball_position (before_collision cfg s dt evs m)
   = ball_position (motion cfg (foldl handle_event s evs) dt m)"
  "grab_offset (before_collision cfg s dt evs m)
   = grab_offset (motion cfg (foldl handle_event s evs) dt m)"
  "drag_active (before_collision cfg s dt evs m)
   = drag_active (motion cfg (foldl handle_event s evs) dt m)"
  by (simp_all add: before_collision_def Let_def obs_defs)

text \<open>
  C5. In a tick whose events leave the ball free, the velocity first gains
  \<open>(gravity / mass) * dt\<close> and the position then advances by the new velocity times \<open>dt\<close>.
  From the state the program starts in (ball at \<open>(450, 230)\<close> with velocity \<open>(180, 0)\<close>,
  hexagon of radius 240 about \<open>(450, 350)\<close> at angle 0), one tick of \<open>dt = 1/60\<close> with no
  event under the gravity \<open>(0, 900)\<close> of the module raises the vertical velocity from 0 to
  15 and leaves the ball at least its radius inside all six edges.
\<close>

theorem free_tick_is_semi_implicit_euler:
  "(well_formed s \<and> \<not> drag_active (foldl handle_event s evs) \<longrightarrow>
      ball_velocity (before_collision cfg s dt evs m)
        = vadd (ball_velocity (foldl handle_event s evs)) (vmul (vdiv (gravity cfg) BALL_MASS) dt)
      \<and> ball_position (before_collision cfg s dt evs m)
        = vadd (ball_position (foldl handle_event s evs))
               (vmul (ball_velocity (before_collision cfg s dt evs m)) dt))
   \<and> ball_position initial_state = (450, 230)
   \<and> ball_velocity initial_state = (180, 0)
   \<and> map_sum id ball_velocity (tick module_config initial_state (1 / 60) [] m) = Inr (180, 15)
   \<and> map_sum id ball_position (tick module_config initial_state (1 / 60) [] m)
       = Inr (453, 230 + 1 / 4)
   \<and> map_sum id ball_contained (tick module_config initial_state (1 / 60) [] m) = Inr True"
proof -
  let ?s = "before_collision module_config initial_state (1 / 60) [] m"
  have pos: "ball_position ?s = (453, 230 + 1 / 4)" and vel: "ball_velocity ?s = (180, 15)"
    by (simp_all add: eval_defs)
  have deep: "vlength (vsub (ball_position ?s) HEX_CENTER) \<le> 120 * sqrt 3 - 18"
    by (rule deep_inside) (simp add: pos vec_defs HEX_CENTER_def)
  then have t: "tick module_config initial_state (1 / 60) [] m = Inr ?s"
    by (rule tick_inside)
  have "ball_contained ?s"
    unfolding ball_contained_def
    by (rule contained_inside) (use deep in \<open>simp_all add: HEX_RADIUS_def BALL_RADIUS_def\<close>)
  moreover have "ball_pos (foldl handle_event s evs) \<noteq> ball_vel (foldl handle_event s evs)"
    if "well_formed s"
    using well_formed_events[OF that, of evs] by (simp add: well_formed_def)
  ultimately show ?thesis
    using free_motion_euler[of "foldl handle_event s evs" cfg dt]
    by (simp add: t pos vel before_collision_obs motion_def) (simp add: eval_defs)
qed

theorem free_tick_is_semi_implicit_euler_witness:
  "well_formed initial_state
   \<and> \<not> drag_active (foldl handle_event initial_state [KEYDOWN 32])
   \<and> ball_velocity (before_collision module_config initial_state (1 / 60) [KEYDOWN 32] (0, 0))
       = (180, 15)
   \<and> ball_position (before_collision module_config initial_state (1 / 60) [KEYDOWN 32] (0, 0))
       = (453, 230 + 1 / 4)"
  using free_tick_is_semi_implicit_euler
          [of initial_state "[KEYDOWN 32]" module_config "1 / 60" "(0, 0)"]
    well_formed_initial
  by (simp add: eval_defs K_ESCAPE_def)

subsection \<open>Releasing the ball\<close>

lemma release_zeroes_velocity:
  "drag_active s \<Longrightarrow> ball_velocity (handle_event s (MOUSEBUTTONUP 1)) = (0, 0)"
  by (simp add: reset_def store_def ball_velocity_def Let_def)

lemma run_grab_then_drag:
  "run module_config initial_state (grab_then_drag @ frames) =
   run module_config
     (before_collision module_config
        (before_collision module_config initial_state (1 / 60)
           [MOUSEBUTTONDOWN 1 (450, 230)] (450, 230))
        (1 / 60) [] (460, 230)) frames"
proof -
  let ?a = "before_collision module_config initial_state (1 / 60)
              [MOUSEBUTTONDOWN 1 (450, 230)] (450, 230)"
  let ?b = "before_collision module_config ?a (1 / 60) [] (460, 230)"
  have 1: "run module_config initial_state (grab_then_drag @ frames)
           = run module_config ?a ((1 / 60, [], (460, 230)) # frames)"
    unfolding grab_then_drag_def append_Cons append_Nil
    by (rule run_step_inside) (simp_all add: eval_defs)
  have 2: "run module_config ?a ((1 / 60, [], (460, 230)) # frames) = run module_config ?b frames"
    by (rule run_step_inside) (simp_all add: eval_defs)
  from 1 2 show ?thesis by simp
qed

lemma run_throw:
  "run module_config initial_state (grab_then_drag @ release @ frames) =
   run module_config
     (before_collision module_config
       (before_collision module_config
          (before_collision module_config initial_state (1 / 60)
             [MOUSEBUTTONDOWN 1 (450, 230)] (450, 230))
          (1 / 60) [] (460, 230))
        (1 / 60) [MOUSEBUTTONUP 1] (460, 230)) frames"
  unfolding run_grab_then_drag release_def append_Cons append_Nil
  by (rule run_step_inside) (simp_all add: eval_defs)

text \<open>
  C1, at the frames \<open>grab_then_drag\<close>. The ball is held and the throw velocity computed
  from the last pointer movement is \<open>(600, 0)\<close>. Line 136 makes \<^verbatim>\<open>ball.vel\<close> the very
  object \<^verbatim>\<open>drag.throw_vel\<close>, and \<^verbatim>\<open>drag.reset()\<close> on line 137 then zeroes that
  object in place: once the release is handled the velocity of the ball is \<open>(0, 0)\<close>, and
  at the end of the frame of the release it is what gravity alone gives, \<open>(0, 15)\<close>.
\<close>

theorem release_loses_throw_velocity:
  "map_sum id drag_active (run module_config initial_state grab_then_drag) = Inr True
   \<and> map_sum id throw_vel (run module_config initial_state grab_then_drag) = Inr (600, 0)
   \<and> map_sum id velocity_after_pointer_up (run module_config initial_state grab_then_drag)
       = Inr (0, 0)
   \<and> map_sum id ball_velocity (run module_config initial_state (grab_then_drag @ release))
       = Inr (0, 15)"
  using run_grab_then_drag[of "[]"] run_throw[of "[]"]
  by (simp add: velocity_after_pointer_up_def eval_defs)

text \<open>
  C10, at the frames \<open>grab_then_drag @ release\<close>. The ball is free and falls with velocity
  \<open>(0, 15)\<close>; its velocity is still the object \<^verbatim>\<open>drag.throw_vel\<close>. A release of the
  button now, with nothing held, runs \<^verbatim>\<open>drag.reset()\<close>, which zeroes that object: the
  velocity of the ball becomes \<open>(0, 0)\<close>.
\<close>

theorem pointer_up_while_free_stops_ball:
  "map_sum id drag_active (run module_config initial_state (grab_then_drag @ release))
       = Inr False
   \<and> map_sum id ball_velocity (run module_config initial_state (grab_then_drag @ release))
       = Inr (0, 15)
   \<and> map_sum id velocity_after_pointer_up
         (run module_config initial_state (grab_then_drag @ release)) = Inr (0, 0)"
  using run_throw[of "[]"]
  by (simp add: velocity_after_pointer_up_def eval_defs)

subsection \<open>The vertices of the hexagon\<close>

lemma hexagon_vertices_next:
  assumes "i < 6"
  shows "hexagon_vertices c r ang ! ((i + 1) mod 6) =
     (fst c + r * cos (ang + real i * (2 * pi) / 6 + pi / 3),
      snd c + r * sin (ang + real i * (2 * pi) / 6 + pi / 3))"
proof (cases "i = 5")
  case True
  have e: "ang + real (5::nat) * (2 * pi) / 6 + pi / 3 = ang + 2 * pi" by simp
  have z: "hexagon_vertices c r ang ! ((5 + 1) mod 6) = (fst c + r * cos ang, snd c + r * sin ang)"
    by (simp add: hexagon_vertices_nth)
  show ?thesis unfolding True e z by (simp only: cos_periodic sin_periodic)
next
  case False
  with assms have lt: "i + 1 < 6" by simp
  then have m: "(i + 1) mod 6 = i + 1" by simp
  have e: "ang + real (i + 1) * (2 * pi) / 6 = ang + real i * (2 * pi) / 6 + pi / 3"
    by (simp add: field_simps)
  show ?thesis
    unfolding m using hexagon_vertices_nth[OF lt, of c r ang] by (simp only: e)
qed

lemma radial_length: "vlength (r * cos t, r * sin t) = \<bar>r\<bar>"
proof -
  have "length_squared (r * cos t, r * sin t) = r * r * (cos t * cos t + sin t * sin t)"
    by (simp add: length_squared_def algebra_simps del: sin_cos_squared_add3)
  then have "length_squared (r * cos t, r * sin t) = r * r" by simp
  then show ?thesis by (simp add: vlength_def)
qed

lemma radial_dot:
  "dot (r * cos t, r * sin t) (r * cos (t + u), r * sin (t + u)) = r * r * cos u"
proof -
  have "cos u = cos ((t + u) - t)" by simp
  also have "\<dots> = cos (t + u) * cos t + sin (t + u) * sin t" by (rule cos_diff)
  finally show ?thesis by (simp add: dot_def algebra_simps)
qed

lemma radial_cross:
  "r * cos t * (r * sin (t + u)) - r * sin t * (r * cos (t + u)) = r * r * sin (u::real)"
proof -
  have "r * r * sin u = r * r * sin ((t + u) - t)" by simp
  also have "\<dots> = r * r * (sin (t + u) * cos t - cos (t + u) * sin t)" by (simp only: sin_diff)
  also have "\<dots> = r * cos t * (r * sin (t + u)) - r * sin t * (r * cos (t + u))"
    by (simp add: algebra_simps)
  finally show ?thesis by simp
qed

text \<open>
  C6. For every centre, radius and angle \<^verbatim>\<open>hexagon_vertices\<close> returns six vertices;
  vertex \<open>i\<close> is the point with polar coordinates \<open>(radius, angle + i * (2 * pi / 6))\<close>
  about the centre. Its Euclidean distance from the centre is the absolute value of the
  radius, hence the radius itself for a radius that is not negative. From each vertex to
  the next, and from the last to the first, the direction seen from the centre turns by
  exactly \<open>pi / 3\<close>, that is 60 degrees: the dot and the cross product of the two radial
  vectors are \<open>r\<^sup>2 cos (pi / 3)\<close> and \<open>r\<^sup>2 sin (pi / 3)\<close>. Equal inputs give equal outputs.
\<close>

theorem hexagon_vertices_polar:
  "length (hexagon_vertices c r ang) = 6
   \<and> (\<forall>i<6. hexagon_vertices c r ang ! i
               = (fst c + r * cos (ang + real i * (2 * pi / 6)),
                  snd c + r * sin (ang + real i * (2 * pi / 6)))
            \<and> vlength (vsub (hexagon_vertices c r ang ! i) c) = \<bar>r\<bar>
            \<and> (0 \<le> r \<longrightarrow> vlength (vsub (hexagon_vertices c r ang ! i) c) = r)
            \<and> dot (vsub (hexagon_vertices c r ang ! i) c)
                   (vsub (hexagon_vertices c r ang ! ((i + 1) mod 6)) c) = r * r * cos (pi / 3)
            \<and> fst (vsub (hexagon_vertices c r ang ! i) c)
                 * snd (vsub (hexagon_vertices c r ang ! ((i + 1) mod 6)) c)
               - snd (vsub (hexagon_vertices c r ang ! i) c)
                 * fst (vsub (hexagon_vertices c r ang ! ((i + 1) mod 6)) c) = r * r * sin (pi / 3))
   \<and> (c' = c \<and> r' = r \<and> ang' = ang \<longrightarrow> hexagon_vertices c' r' ang' = hexagon_vertices c r ang)"
proof -
  have body: "hexagon_vertices c r ang ! i
               = (fst c + r * cos (ang + real i * (2 * pi / 6)),
                  snd c + r * sin (ang + real i * (2 * pi / 6)))
            \<and> vlength (vsub (hexagon_vertices c r ang ! i) c) = \<bar>r\<bar>
            \<and> (0 \<le> r \<longrightarrow> vlength (vsub (hexagon_vertices c r ang ! i) c) = r)
            \<and> dot (vsub (hexagon_vertices c r ang ! i) c)
                   (vsub (hexagon_vertices c r ang ! ((i + 1) mod 6)) c) = r * r * cos (pi / 3)
            \<and> fst (vsub (hexagon_vertices c r ang ! i) c)
                 * snd (vsub (hexagon_vertices c r ang ! ((i + 1) mod 6)) c)
               - snd (vsub (hexagon_vertices c r ang ! i) c)
                 * fst (vsub (hexagon_vertices c r ang ! ((i + 1) mod 6)) c) = r * r * sin (pi / 3)"
    if "i < 6" for i
  proof -
    let ?t = "ang + real i * (2 * pi / 6)"
    have t: "ang + real i * (2 * pi) / 6 = ?t" by simp
    have a: "hexagon_vertices c r ang ! i = (fst c + r * cos ?t, snd c + r * sin ?t)"
      using hexagon_vertices_nth[OF that, of c r ang] by (simp only: t)
    have b: "hexagon_vertices c r ang ! ((i + 1) mod 6)
             = (fst c + r * cos (?t + pi / 3), snd c + r * sin (?t + pi / 3))"
      using hexagon_vertices_next[OF that, of c r ang] by (simp only: t)
    have va: "vsub (hexagon_vertices c r ang ! i) c = (r * cos ?t, r * sin ?t)"
      unfolding a by (simp add: vsub_def)
    have vb: "vsub (hexagon_vertices c r ang ! ((i + 1) mod 6)) c
              = (r * cos (?t + pi / 3), r * sin (?t + pi / 3))"
      unfolding b by (simp add: vsub_def)
    have l: "vlength (vsub (hexagon_vertices c r ang ! i) c) = \<bar>r\<bar>"
      unfolding va by (rule radial_length)
    have d: "dot (vsub (hexagon_vertices c r ang ! i) c)
                 (vsub (hexagon_vertices c r ang ! ((i + 1) mod 6)) c) = r * r * cos (pi / 3)"
      unfolding va vb by (rule radial_dot)
    have x: "fst (vsub (hexagon_vertices c r ang ! i) c)
               * snd (vsub (hexagon_vertices c r ang ! ((i + 1) mod 6)) c)
             - snd (vsub (hexagon_vertices c r ang ! i) c)
               * fst (vsub (hexagon_vertices c r ang ! ((i + 1) mod 6)) c) = r * r * sin (pi / 3)"
      unfolding va vb fst_conv snd_conv by (rule radial_cross)
    from a l d x show ?thesis by simp
  qed
  then show ?thesis
    using length_hexagon_vertices[of c r ang] by blast
qed

theorem hexagon_vertices_polar_witness:
  "hexagon_vertices HEX_CENTER HEX_RADIUS 0 ! 0 = (690, 350)
   \<and> vlength (vsub (hexagon_vertices HEX_CENTER HEX_RADIUS 0 ! 0) HEX_CENTER) = HEX_RADIUS"
proof -
  have i: "(0::nat) < 6" by simp
  note t = hexagon_vertices_polar[where c = HEX_CENTER and r = HEX_RADIUS and ang = 0, THEN conjunct2,
              THEN conjunct1, rule_format, OF i]
  from t have a: "hexagon_vertices HEX_CENTER HEX_RADIUS 0 ! 0
      = (fst HEX_CENTER + HEX_RADIUS * cos (0 + real 0 * (2 * pi / 6)),
         snd HEX_CENTER + HEX_RADIUS * sin (0 + real 0 * (2 * pi / 6)))"
    by blast
  from t have b: "0 \<le> HEX_RADIUS \<longrightarrow>
      vlength (vsub (hexagon_vertices HEX_CENTER HEX_RADIUS 0 ! 0) HEX_CENTER) = HEX_RADIUS"
    by blast
  from a have "hexagon_vertices HEX_CENTER HEX_RADIUS 0 ! 0 = (690, 350)"
    by (simp add: HEX_CENTER_def HEX_RADIUS_def)
  moreover from b have "vlength (vsub (hexagon_vertices HEX_CENTER HEX_RADIUS 0 ! 0) HEX_CENTER) = HEX_RADIUS"
    by (simp add: HEX_RADIUS_def)
  ultimately show ?thesis by blast
qed

subsection \<open>The impulse at a wall\<close>

lemma collide_velocity:
  assumes "ball_pos s \<noteq> ball_vel s"
    and "dot (vsub (ball_position s) a) n < BALL_RADIUS"
  shows "ball_velocity (collide cfg s a n) =
     (if approach_speed cfg s a n < 0
      then vadd (vsub (ball_velocity s) (vmul n ((1 + RESTITUTION) * approach_speed cfg s a n)))
                (vmul (- snd n, fst n)
                   (- dot (vsub (ball_velocity s) (wall_velocity cfg (corrected_position s a n)))
                          (- snd n, fst n) * FRICTION))
      else ball_velocity s)"
  using assms
  by (simp add: collide_def Let_def store_def ball_velocity_def ball_position_def
        approach_speed_def wall_velocity_def corrected_position_def)

lemma impulse_normal_component:
  assumes "length_squared n = 1"
  shows "dot (vadd (vsub v (vmul n k)) (vmul (- snd n, fst n) f)) n = dot v n - k"
proof -
  have "dot (vadd (vsub v (vmul n k)) (vmul (- snd n, fst n) f)) n = dot v n - k * length_squared n"
    by (simp add: vec_defs algebra_simps)
  with assms show ?thesis by simp
qed

lemma approach_speed_still: "angular_speed cfg = 0 \<Longrightarrow> approach_speed cfg s a n = dot (ball_velocity s) n"
  by (simp add: approach_speed_def wall_velocity_def vec_defs)

text \<open>
  C4. Let the ball penetrate an edge that has a normal. If \<^verbatim>\<open>vn\<close>, the normal
  component of its velocity relative to the wall, is negative, the velocity loses
  \<open>(1 + RESTITUTION) * vn * normal\<close> and gains the friction impulse along the tangent, and
  its normal component becomes the old one less \<open>(1 + RESTITUTION) * vn\<close>. If \<^verbatim>\<open>vn\<close>
  is not negative the velocity is left as it is. With a wall that does not turn
  (\<open>angular_speed = 0\<close>), the restitution 0.85 of the module and a normal velocity of
  \<open>-100\<close>, \<^verbatim>\<open>vn\<close> is \<open>-100\<close> and the normal velocity after resolution is \<open>85\<close>.
\<close>

theorem restitution_on_approach_only:
  assumes "index vertices i = Inr a"
    and "index vertices ((i + 1) mod 6) = Inr b"
    and "inward_normal a b = Inr (Some n)"
    and "ball_pos s \<noteq> ball_vel s"
    and "dot (vsub (ball_position s) a) n < BALL_RADIUS"
  shows "resolve_edge cfg s vertices i = Inr (collide cfg s a n)
    \<and> (approach_speed cfg s a n < 0 \<longrightarrow>
         ball_velocity (collide cfg s a n)
           = vadd (vsub (ball_velocity s) (vmul n ((1 + RESTITUTION) * approach_speed cfg s a n)))
                  (vmul (- snd n, fst n)
                     (- dot (vsub (ball_velocity s) (wall_velocity cfg (corrected_position s a n)))
                            (- snd n, fst n) * FRICTION))
         \<and> dot (ball_velocity (collide cfg s a n)) n
           = dot (ball_velocity s) n - (1 + RESTITUTION) * approach_speed cfg s a n)
    \<and> (\<not> approach_speed cfg s a n < 0 \<longrightarrow> ball_velocity (collide cfg s a n) = ball_velocity s)
    \<and> (angular_speed cfg = 0 \<and> dot (ball_velocity s) n = - 100 \<longrightarrow>
         approach_speed cfg s a n = - 100 \<and> dot (ball_velocity (collide cfg s a n)) n = 85)"
proof -
  have u: "length_squared n = 1" using assms(3) by (rule inward_normal_unit)
  have r: "resolve_edge cfg s vertices i = Inr (collide cfg s a n)"
    unfolding resolve_edge_def assms(1,2) by (simp add: assms(3))
  note v = collide_velocity[OF assms(4,5), of cfg]
  have v1: "ball_velocity (collide cfg s a n)
           = vadd (vsub (ball_velocity s) (vmul n ((1 + RESTITUTION) * approach_speed cfg s a n)))
                  (vmul (- snd n, fst n)
                     (- dot (vsub (ball_velocity s) (wall_velocity cfg (corrected_position s a n)))
                            (- snd n, fst n) * FRICTION))"
    if "approach_speed cfg s a n < 0"
    using v that by simp
  have v2: "ball_velocity (collide cfg s a n) = ball_velocity s" if "\<not> approach_speed cfg s a n < 0"
    using v that by simp
  have n1: "dot (ball_velocity (collide cfg s a n)) n
            = dot (ball_velocity s) n - (1 + RESTITUTION) * approach_speed cfg s a n"
    if "approach_speed cfg s a n < 0"
    unfolding v1[OF that] by (rule impulse_normal_component[OF u])
  have still: "approach_speed cfg s a n = - 100 \<and> dot (ball_velocity (collide cfg s a n)) n = 85"
    if "angular_speed cfg = 0" "dot (ball_velocity s) n = - 100"
  proof -
    have ap: "approach_speed cfg s a n = - 100"
      using that by (simp add: approach_speed_still)
    then have "approach_speed cfg s a n < 0" by simp
    from n1[OF this] ap that(2) show ?thesis by (simp add: RESTITUTION_def)
  qed
  show ?thesis
    using r v1 v2 n1 still by blast
qed

theorem restitution_on_approach_only_witness:
  "index [(0, 0), (0, 1)] 0 = Inr ((0, 0) :: vec)
   \<and> index [(0, 0), (0, 1)] ((0 + 1) mod 6) = Inr ((0, 1) :: vec)
   \<and> inward_normal (0, 0) (0, 1) = Inr (Some (1, 0))
   \<and> ball_pos approaching_state \<noteq> ball_vel approaching_state
   \<and> dot (vsub (ball_position approaching_state) (0, 0)) (1, 0) < BALL_RADIUS
   \<and> angular_speed still_config = 0
   \<and> dot (ball_velocity approaching_state) (1, 0) = - 100
   \<and> resolve_edge still_config approaching_state [(0, 0), (0, 1)] 0
       = Inr (collide still_config approaching_state (0, 0) (1, 0))
   \<and> dot (ball_velocity (collide still_config approaching_state (0, 0) (1, 0))) (1, 0) = 85"
proof -
  have h1: "index [(0, 0), (0, 1)] 0 = Inr ((0, 0) :: vec)"
    and h2: "index [(0, 0), (0, 1)] ((0 + 1) mod 6) = Inr ((0, 1) :: vec)"
    by (simp_all add: index_def)
  have h3: "inward_normal (0, 0) (0, 1) = Inr (Some (1, 0))"
    by (simp add: inward_normal_def normalize_def vlength_def vec_defs HEX_CENTER_def)
  have h4: "ball_pos approaching_state \<noteq> ball_vel approaching_state"
    by (simp add: approaching_state_def store_def initial_state_def)
  have h5: "dot (vsub (ball_position approaching_state) (0, 0)) (1, 0) < BALL_RADIUS"
    by (simp add: approaching_state_def store_def initial_state_def ball_position_def vec_defs BALL_RADIUS_def)
  have h6: "angular_speed still_config = 0" by (simp add: still_config_def)
  have h7: "dot (ball_velocity approaching_state) (1, 0) = - 100"
    by (simp add: approaching_state_def store_def initial_state_def ball_velocity_def vec_defs)
  note t = restitution_on_approach_only[OF h1 h2 h3 h4 h5, of still_config]
  from t h6 h7
  have "dot (ball_velocity (collide still_config approaching_state (0, 0) (1, 0))) (1, 0) = 85"
    by blast
  moreover from t
  have "resolve_edge still_config approaching_state [(0, 0), (0, 1)] 0
        = Inr (collide still_config approaching_state (0, 0) (1, 0))"
    by blast
  ultimately show ?thesis
    using h1 h2 h3 h4 h5 h6 h7 by blast
qed

subsection \<open>The pass over the six edges, seen from the position of the ball\<close>

lemma resolve_edge_push:
  assumes "i < 6" "ball_pos s \<noteq> ball_vel s"
  shows "\<exists>s'. resolve_edge cfg s (hexagon_vertices HEX_CENTER HEX_RADIUS ang) i = Inr s'
          \<and> ball_position s' = push (hex_dir ang i) (ball_position s)
          \<and> ball_pos s' \<noteq> ball_vel s'"
  using assms
  by (simp add: resolve_edge_hex HEX_RADIUS_def collide_position collide_fields hex_edge_dist
        push_def hex_dir_def vneg_def)

lemma resolve_loop_push:
  assumes "\<forall>i \<in> set is. i < 6" "ball_pos s \<noteq> ball_vel s"
  shows "\<exists>s'. resolve_loop cfg (hexagon_vertices HEX_CENTER HEX_RADIUS ang) is s = Inr s'
          \<and> ball_position s' = foldl (\<lambda>p i. push (hex_dir ang i) p) (ball_position s) is"
  using assms
proof (induction "is" arbitrary: s)
  case Nil
  then show ?case by simp
next
  case (Cons i rest)
  then obtain s1 where s1: "resolve_edge cfg s (hexagon_vertices HEX_CENTER HEX_RADIUS ang) i = Inr s1"
      "ball_position s1 = push (hex_dir ang i) (ball_position s)" "ball_pos s1 \<noteq> ball_vel s1"
    using resolve_edge_push[of i s cfg ang] by auto
  from Cons.IH[of s1] Cons.prems s1 show ?case by simp
qed

lemma tick_position:
  assumes "well_formed s"
  shows "map_sum id ball_position (tick cfg s dt evs m)
         = Inr (foldl (\<lambda>p i. push (hex_dir (angle (before_collision cfg s dt evs m)) i) p)
                  (ball_position (before_collision cfg s dt evs m)) [0..<6])"
proof -
  let ?b = "before_collision cfg s dt evs m"
  have "ball_pos ?b \<noteq> ball_vel ?b"
    using well_formed_before_collision[OF assms, of cfg dt evs m] by (simp add: well_formed_def)
  then obtain s' where "resolve_loop cfg (hexagon_vertices HEX_CENTER HEX_RADIUS (angle ?b)) [0..<6] ?b = Inr s'"
     "ball_position s' = foldl (\<lambda>p i. push (hex_dir (angle ?b) i) p) (ball_position ?b) [0..<6]"
    using resolve_loop_push[of "[0..<6]" ?b cfg "angle ?b"] by auto
  then show ?thesis by (simp add: tick_def Let_def resolve_collision_def)
qed

lemma collide_grab_offset:
  assumes "ball_pos s \<noteq> drag_grab_offset s" "ball_vel s \<noteq> drag_grab_offset s"
  shows "grab_offset (collide cfg s a n) = grab_offset s"
  using assms by (simp add: collide_def Let_def store_def grab_offset_def)

lemma resolve_edge_frame:
  assumes "well_formed s" "resolve_edge cfg s vs i = Inr s'"
  shows "angle s' = angle s \<and> running s' = running s \<and> drag_active s' = drag_active s
         \<and> grab_offset s' = grab_offset s"
  using assms
  by (auto simp: resolve_edge_def collide_fields collide_grab_offset well_formed_def
           split: sum.splits option.splits)

lemma resolve_loop_frame:
  assumes "well_formed s" "resolve_loop cfg vs is s = Inr s'"
  shows "angle s' = angle s \<and> running s' = running s \<and> drag_active s' = drag_active s
         \<and> grab_offset s' = grab_offset s"
  using assms
proof (induction "is" arbitrary: s)
  case Nil
  then show ?case by simp
next
  case (Cons i rest)
  from Cons.prems obtain s1 where s1: "resolve_edge cfg s vs i = Inr s1" "resolve_loop cfg vs rest s1 = Inr s'"
    by (auto split: sum.splits)
  from resolve_edge_frame[OF Cons.prems(1) s1(1)] well_formed_resolve_edge[OF Cons.prems(1) s1(1)]
    Cons.IH[of s1] s1(2)
  show ?case by simp
qed

lemma tick_frame:
  assumes "well_formed s" "tick cfg s dt evs m = Inr s'"
  shows "angle s' = angle (before_collision cfg s dt evs m)"
    "running s' = running (before_collision cfg s dt evs m)"
    "drag_active s' = drag_active (before_collision cfg s dt evs m)"
    "grab_offset s' = grab_offset (before_collision cfg s dt evs m)"
  using resolve_loop_frame[OF well_formed_before_collision[OF assms(1), of cfg dt evs m]] assms(2)
  by (simp_all add: tick_def Let_def resolve_collision_def)

lemma tick_position':
  assumes "well_formed s" "tick cfg s dt evs m = Inr s'"
  shows "ball_position s'
         = foldl (\<lambda>p i. push (hex_dir (angle (before_collision cfg s dt evs m)) i) p)
                  (ball_position (before_collision cfg s dt evs m)) [0..<6]"
  using tick_position[OF assms(1), of cfg dt evs m] assms(2) by simp

lemma upt6: "[0..<6] = [0, 1, 2, 3, 4, 5]"
  by (simp add: upt_rec)

lemma push_clear:
  "dot (vsub p HEX_CENTER) u \<le> 120 * sqrt 3 - 18 \<Longrightarrow> push u p = p"
  by (simp add: push_def HEX_RADIUS_def BALL_RADIUS_def)

lemma push_out:
  "120 * sqrt 3 - 18 < dot (vsub p HEX_CENTER) u \<Longrightarrow>
   push u p = vsub p (vmul u (dot (vsub p HEX_CENTER) u - (120 * sqrt 3 - 18)))"
  by (simp add: push_def HEX_RADIUS_def BALL_RADIUS_def vec_defs algebra_simps)

lemma hex_phi_120:
  "cos (hex_phi (2 * pi / 3) 0) = - (sqrt 3 / 2)" "sin (hex_phi (2 * pi / 3) 0) = 1 / 2"
  "cos (hex_phi (2 * pi / 3) 1) = - (sqrt 3 / 2)" "sin (hex_phi (2 * pi / 3) 1) = - (1 / 2)"
  "cos (hex_phi (2 * pi / 3) 2) = 0" "sin (hex_phi (2 * pi / 3) 2) = - 1"
  "cos (hex_phi (2 * pi / 3) 3) = sqrt 3 / 2" "sin (hex_phi (2 * pi / 3) 3) = - (1 / 2)"
  "cos (hex_phi (2 * pi / 3) 4) = sqrt 3 / 2" "sin (hex_phi (2 * pi / 3) 4) = 1 / 2"
  "cos (hex_phi (2 * pi / 3) 5) = 0" "sin (hex_phi (2 * pi / 3) 5) = 1"
proof -
  have p0: "hex_phi (2 * pi / 3) 0 = pi - pi / 6" by (simp add: hex_phi_def)
  have p1: "hex_phi (2 * pi / 3) 1 = pi / 6 + pi" by (simp add: hex_phi_def)
  have p2: "hex_phi (2 * pi / 3) 2 = pi / 2 + pi" by (simp add: hex_phi_def)
  have p3: "hex_phi (2 * pi / 3) 3 = - (pi / 6) + 2 * pi" by (simp add: hex_phi_def)
  have p4: "hex_phi (2 * pi / 3) 4 = pi / 6 + 2 * pi" by (simp add: hex_phi_def)
  have p5: "hex_phi (2 * pi / 3) 5 = pi / 2 + 2 * pi" by (simp add: hex_phi_def)
  show "cos (hex_phi (2 * pi / 3) 0) = - (sqrt 3 / 2)" "sin (hex_phi (2 * pi / 3) 0) = 1 / 2"
    unfolding p0 by (simp_all only: cos_pi_minus sin_pi_minus cos_30 sin_30)
  show "cos (hex_phi (2 * pi / 3) 1) = - (sqrt 3 / 2)" "sin (hex_phi (2 * pi / 3) 1) = - (1 / 2)"
    unfolding p1 by (simp_all only: cos_periodic_pi sin_periodic_pi cos_30 sin_30)
  show "cos (hex_phi (2 * pi / 3) 2) = 0" "sin (hex_phi (2 * pi / 3) 2) = - 1"
    unfolding p2 by (simp_all only: cos_periodic_pi sin_periodic_pi cos_pi_half sin_pi_half minus_zero)
  show "cos (hex_phi (2 * pi / 3) 3) = sqrt 3 / 2" "sin (hex_phi (2 * pi / 3) 3) = - (1 / 2)"
    unfolding p3 by (simp_all only: cos_periodic sin_periodic cos_minus sin_minus cos_30 sin_30)
  show "cos (hex_phi (2 * pi / 3) 4) = sqrt 3 / 2" "sin (hex_phi (2 * pi / 3) 4) = 1 / 2"
    unfolding p4 by (simp_all only: cos_periodic sin_periodic cos_30 sin_30)
  show "cos (hex_phi (2 * pi / 3) 5) = 0" "sin (hex_phi (2 * pi / 3) 5) = 1"
    unfolding p5 by (simp_all only: cos_periodic sin_periodic cos_pi_half sin_pi_half)
qed

lemma hex_dir_120:
  "hex_dir (2 * pi / 3) 0 = (- (sqrt 3 / 2), 1 / 2)"
  "hex_dir (2 * pi / 3) 1 = (- (sqrt 3 / 2), - (1 / 2))"
  "hex_dir (2 * pi / 3) 2 = (0, - 1)"
  "hex_dir (2 * pi / 3) 3 = (sqrt 3 / 2, - (1 / 2))"
  "hex_dir (2 * pi / 3) 4 = (sqrt 3 / 2, 1 / 2)"
  "hex_dir (2 * pi / 3) 5 = (0, 1)"
  unfolding hex_dir_def hex_phi_120 by (rule refl)+

lemma sqrt3_upper: "sqrt 3 \<le> 2"
  by (rule real_le_lsqrt) simp_all

lemma sqrt3_sq: "sqrt 3 * sqrt 3 = 3" "sqrt 3 * (sqrt 3 * x) = 3 * x"
  by simp_all

lemmas push_eval = vec_defs HEX_CENTER_def sqrt3_sq

lemma pass_held:
  "foldl (\<lambda>p i. push (hex_dir (2 * pi / 3) i) p) (450, 690) [0..<6] = (450, 332 + 120 * sqrt 3)"
proof -
  let ?p = "(450, 690) :: vec"
  have e0: "push (- (sqrt 3 / 2), 1 / 2) ?p = ?p"
    by (rule push_clear) (use sqrt3_lower in \<open>simp add: push_eval\<close>)
  have e1: "push (- (sqrt 3 / 2), - (1 / 2)) ?p = ?p"
    by (rule push_clear) (use sqrt3_lower in \<open>simp add: push_eval\<close>)
  have e2: "push (0, - 1) ?p = ?p"
    by (rule push_clear) (use sqrt3_lower in \<open>simp add: push_eval\<close>)
  have e3: "push (sqrt 3 / 2, - (1 / 2)) ?p = ?p"
    by (rule push_clear) (use sqrt3_lower in \<open>simp add: push_eval\<close>)
  have e4: "push (sqrt 3 / 2, 1 / 2) ?p = ?p"
    by (rule push_clear) (use sqrt3_lower in \<open>simp add: push_eval\<close>)
  have e5: "push (0, 1) ?p = (450, 332 + 120 * sqrt 3)"
    by (subst push_out) (use sqrt3_upper in \<open>simp_all add: push_eval\<close>)
  show ?thesis
    unfolding upt6 by (simp only: foldl.simps hex_dir_120 e0 e1 e2 e3 e4 e5)
qed

lemma pass_stall:
  "foldl (\<lambda>p i. push (hex_dir (2 * pi / 3) i) p) (1314, 20966) [0..<6]
   = (432 - 5163 / 2 * sqrt 3, 332 + 120 * sqrt 3)"
proof -
  let ?p0 = "(1314, 20966) :: vec"
  let ?p1 = "(486 + 5163 * sqrt 3, 15803 + 276 * sqrt 3) :: vec"
  let ?p2 = "(432 - 5163 / 2 * sqrt 3, 16117 / 2 + 258 * sqrt 3) :: vec"
  let ?p3 = "(432 - 5163 / 2 * sqrt 3, 332 + 120 * sqrt 3) :: vec"
  have e0: "push (- (sqrt 3 / 2), 1 / 2) ?p0 = ?p1"
    by (subst push_out) (use sqrt3_upper sqrt3_lower in \<open>simp_all add: push_eval algebra_simps\<close>)
  have e1: "push (- (sqrt 3 / 2), - (1 / 2)) ?p1 = ?p1"
    by (rule push_clear) (use sqrt3_lower sqrt3_upper in \<open>simp add: push_eval algebra_simps\<close>)
  have e2: "push (0, - 1) ?p1 = ?p1"
    by (rule push_clear) (use sqrt3_lower sqrt3_upper in \<open>simp add: push_eval algebra_simps\<close>)
  have e3: "push (sqrt 3 / 2, - (1 / 2)) ?p1 = ?p1"
    by (rule push_clear) (use sqrt3_lower sqrt3_upper in \<open>simp add: push_eval algebra_simps\<close>)
  have e4: "push (sqrt 3 / 2, 1 / 2) ?p1 = ?p2"
    by (subst push_out) (use sqrt3_upper sqrt3_lower in \<open>simp_all add: push_eval algebra_simps\<close>)
  have e5: "push (0, 1) ?p2 = ?p3"
    by (subst push_out) (use sqrt3_upper sqrt3_lower in \<open>simp_all add: push_eval algebra_simps\<close>)
  show ?thesis
    unfolding upt6 by (simp only: foldl.simps hex_dir_120 e0 e1 e2 e3 e4 e5)
qed

lemma run_single:
  "running s \<Longrightarrow> run cfg s [(dt, evs, m)] = tick cfg s dt evs m"
  by (simp split: sum.splits)

lemma resolve_loop_append:
  "resolve_loop cfg vs (xs @ ys) s =
     (case resolve_loop cfg vs xs s of Inl e \<Rightarrow> Inl e | Inr s1 \<Rightarrow> resolve_loop cfg vs ys s1)"
  by (induction xs arbitrary: s) (auto split: sum.splits)

lemma edge_step_distance:
  assumes "ball_pos s \<noteq> ball_vel s"
    and "resolve_edge cfg s vs i = Inr s'"
    and "edge_distance vs i (ball_position s') = Some d"
  shows "BALL_RADIUS \<le> d"
  using assms
  by (auto simp: resolve_edge_def edge_distance_def collide_distance inward_normal_unit
           split: sum.splits option.splits)

lemma resolve_collision_contained:
  assumes "ball_contained s"
  shows "resolve_collision cfg s (hexagon_vertices HEX_CENTER HEX_RADIUS (angle s)) = Inr s"
  unfolding resolve_collision_def
proof (rule resolve_loop_id)
  fix i assume "i \<in> set [0..<6]"
  then have i: "i < 6" by simp
  have r: "0 < HEX_RADIUS" by (simp add: HEX_RADIUS_def)
  from assms i have "BALL_RADIUS \<le> HEX_RADIUS * (sqrt 3 / 2)
      - dot (vsub (ball_position s) HEX_CENTER) (cos (hex_phi (angle s) i), sin (hex_phi (angle s) i))"
    by (simp add: ball_contained_def contained_def list_all_iff edge_distance_hex[OF r])
  then show "resolve_edge cfg s (hexagon_vertices HEX_CENTER HEX_RADIUS (angle s)) i = Inr s"
    by (simp add: resolve_edge_hex[OF r i] collide_clear hex_edge_dist)
qed

lemma tick_contained:
  "ball_contained (before_collision cfg s dt evs m) \<Longrightarrow>
   tick cfg s dt evs m = Inr (before_collision cfg s dt evs m)"
  by (simp add: tick_def Let_def resolve_collision_contained)

lemma tick_last_edge:
  assumes "well_formed s" "tick cfg s dt evs m = Inr s'"
  shows "\<exists>d. ball_edge_distance 5 s' = Some d \<and> BALL_RADIUS \<le> d"
proof -
  let ?b = "before_collision cfg s dt evs m"
  let ?vs = "hexagon_vertices HEX_CENTER HEX_RADIUS (angle ?b)"
  have sp: "[0..<6] = [0, 1, 2, 3, 4] @ [5]" by (simp add: upt_rec)
  have wb: "well_formed ?b" using assms(1) by (rule well_formed_before_collision)
  from assms(2) obtain s5 where s5: "resolve_loop cfg ?vs [0, 1, 2, 3, 4] ?b = Inr s5"
      and last: "resolve_edge cfg s5 ?vs 5 = Inr s'"
    unfolding tick_def Let_def resolve_collision_def sp resolve_loop_append
    by (auto split: sum.splits)
  have "well_formed s5" using wb s5 by (rule well_formed_resolve_loop)
  then have ne: "ball_pos s5 \<noteq> ball_vel s5" by (simp add: well_formed_def)
  have ang: "angle s' = angle ?b" using assms by (rule tick_frame)
  have "0 < HEX_RADIUS" by (simp add: HEX_RADIUS_def)
  then obtain d where d: "edge_distance ?vs 5 (ball_position s') = Some d"
    by (simp add: edge_distance_hex)
  from edge_step_distance[OF ne last d] d ang show ?thesis
    by (simp add: ball_edge_distance_def)
qed

lemma drag_update_obs:
  assumes "well_formed s"
  shows "ball_position (drag_update s p dt) = vadd p (grab_offset s)"
    and "ball_velocity (drag_update s p dt) = ball_velocity s"
    and "grab_offset (drag_update s p dt) = grab_offset s"
  using assms
  by (auto simp: well_formed_def drag_update_def alloc_def Let_def obs_defs)


subsection \<open>A held ball\<close>

text \<open>
  C2, as the program has it. In a tick whose events leave the ball held, with the pointer
  at \<open>p\<close>, lines 140 and 141 put the ball at \<open>p + grab_offset\<close> exactly; its velocity is
  not integrated, and this is so under every gravity. Collision resolution then runs as in
  every tick. The grab offset is the same at the end of the tick, and the ball is still at
  \<open>p + grab_offset\<close> then if that point is at least \<^verbatim>\<open>BALL_RADIUS\<close> inside all six
  edges of the hexagon.
\<close>

theorem held_tick_position:
  assumes "well_formed s" and "drag_active (foldl handle_event s evs)"
  shows "ball_position (before_collision cfg s dt evs p) = vadd p (grab_offset (foldl handle_event s evs))
    \<and> ball_velocity (before_collision cfg s dt evs p) = ball_velocity (foldl handle_event s evs)
    \<and> (\<forall>s'. tick cfg s dt evs p = Inr s' \<longrightarrow> grab_offset s' = grab_offset (foldl handle_event s evs))
    \<and> (ball_contained (before_collision cfg s dt evs p) \<longrightarrow>
         map_sum id ball_position (tick cfg s dt evs p)
           = Inr (vadd p (grab_offset (foldl handle_event s evs))))"
proof -
  let ?s1 = "foldl handle_event s evs"
  have w1: "well_formed ?s1" using assms(1) by (rule well_formed_events)
  have pos: "ball_position (before_collision cfg s dt evs p) = vadd p (grab_offset ?s1)"
    and vel: "ball_velocity (before_collision cfg s dt evs p) = ball_velocity ?s1"
    and off: "grab_offset (before_collision cfg s dt evs p) = grab_offset ?s1"
    using assms(2) drag_update_obs[OF w1, of p dt]
    by (simp_all add: before_collision_obs motion_def)
  have "grab_offset s' = grab_offset ?s1" if "tick cfg s dt evs p = Inr s'" for s'
    using tick_frame(4)[OF assms(1) that] off by simp
  moreover have "map_sum id ball_position (tick cfg s dt evs p) = Inr (vadd p (grab_offset ?s1))"
    if "ball_contained (before_collision cfg s dt evs p)"
    using tick_contained[OF that] pos by simp
  ultimately show ?thesis using pos vel by blast
qed

theorem held_tick_position_witness:
  "well_formed initial_state
   \<and> drag_active (foldl handle_event initial_state [MOUSEBUTTONDOWN 1 (450, 230)])
   \<and> grab_offset (foldl handle_event initial_state [MOUSEBUTTONDOWN 1 (450, 230)]) = (0, 0)
   \<and> ball_position (before_collision module_config initial_state (1 / 60)
                      [MOUSEBUTTONDOWN 1 (450, 230)] (460, 230)) = (460, 230)"
proof -
  have d: "drag_active (foldl handle_event initial_state [MOUSEBUTTONDOWN 1 (450, 230)])"
    and g: "grab_offset (foldl handle_event initial_state [MOUSEBUTTONDOWN 1 (450, 230)]) = (0, 0)"
    by (simp_all add: eval_defs)
  from held_tick_position[OF well_formed_initial d, of module_config "1 / 60" "(460, 230)"] g
  have "ball_position (before_collision module_config initial_state (1 / 60)
                      [MOUSEBUTTONDOWN 1 (450, 230)] (460, 230)) = (460, 230)"
    by (simp add: vadd_def)
  with well_formed_initial d g show ?thesis by blast
qed

lemma angle_slow:
  "angle (before_collision module_config (before_collision module_config initial_state (12 / 5)
             [MOUSEBUTTONDOWN 1 (450, 230)] (450, 230)) (12 / 5) [] (450, 690)) = 2 * pi / 3"
  by (simp add: eval_defs ANGULAR_SPEED_def)

text \<open>
  The ball is grabbed where it starts, so the grab offset is \<open>(0, 0)\<close>, and is held when
  the second frame begins. In that frame the pointer is at \<open>(450, 690)\<close>, below the lowest
  edge of the hexagon: the last edge pushes the ball back, and at the end of the tick it is
  at \<open>(450, 332 + 120 * sqrt 3)\<close>, about \<open>(450, 539.8)\<close>, not at the pointer.
\<close>

theorem held_ball_pushed_back:
  "map_sum id drag_active (run module_config initial_state slow_grab) = Inr True
   \<and> map_sum id grab_offset (run module_config initial_state slow_grab) = Inr (0, 0)
   \<and> map_sum id grab_offset (run module_config initial_state (slow_grab @ slow_drag)) = Inr (0, 0)
   \<and> map_sum id ball_position (run module_config initial_state (slow_grab @ slow_drag))
       = Inr (450, 332 + 120 * sqrt 3)
   \<and> (450, 332 + 120 * sqrt 3) \<noteq> vadd (450, 690) (0, 0)"
proof -
  let ?a = "before_collision module_config initial_state (12 / 5)
              [MOUSEBUTTONDOWN 1 (450, 230)] (450, 230)"
  let ?b = "before_collision module_config ?a (12 / 5) [] (450, 690)"
  have 1: "run module_config initial_state (slow_grab @ frames) = run module_config ?a frames" for frames
    unfolding slow_grab_def append_Cons append_Nil
    by (rule run_step_inside) (simp_all add: eval_defs)
  have wa: "well_formed ?a" using well_formed_initial by (rule well_formed_before_collision)
  have ra: "running ?a" by (simp add: eval_defs)
  obtain s' where t: "tick module_config ?a (12 / 5) [] (450, 690) = Inr s'"
    using tick_total by blast
  have r2: "run module_config initial_state (slow_grab @ slow_drag) = Inr s'"
    unfolding 1 slow_drag_def using ra t by simp
  have pb: "ball_position ?b = (450, 690)" by (simp add: eval_defs)
  have "ball_position s' = (450, 332 + 120 * sqrt 3)"
    unfolding tick_position'[OF wa t] angle_slow pb by (rule pass_held)
  moreover have "grab_offset s' = (0, 0)"
    unfolding tick_frame(4)[OF wa t] by (simp add: eval_defs)
  moreover have "(450, 332 + 120 * sqrt 3) \<noteq> vadd (450, 690) (0, 0)"
    using sqrt3_upper by (simp add: vadd_def)
  ultimately show ?thesis
    using 1[of "[]"] r2 by (simp add: eval_defs)
qed

subsection \<open>Containment after a single pass\<close>

lemma angle_stall:
  "angle (before_collision module_config initial_state (24 / 5) [] m) = 2 * pi / 3"
  by (simp add: eval_defs ANGULAR_SPEED_def)

text \<open>
  One frame of 4.8 seconds from the start, with no event: the ball falls to
  \<open>(1314, 20966)\<close>, and the corrections for edges 0, 4 and 5 leave it at about
  \<open>(-4039.3, 539.8)\<close>. The correction for edge 5 comes last and the pass does not return
  to edge 0: the centre of the ball ends the tick more than 3000 units outside that edge.
\<close>

theorem stalled_frame_leaves_ball_outside:
  "map_sum id ball_position (run module_config initial_state stall)
       = Inr (432 - 5163 / 2 * sqrt 3, 332 + 120 * sqrt 3)
   \<and> map_sum id (ball_edge_distance 0) (run module_config initial_state stall)
       = Inr (Some (51 * sqrt 3 - 15453 / 4))
   \<and> 51 * sqrt 3 - 15453 / 4 < - 3000
   \<and> map_sum id ball_contained (run module_config initial_state stall) = Inr False"
proof -
  let ?b = "before_collision module_config initial_state (24 / 5) [] (0, 0)"
  obtain s' where t: "tick module_config initial_state (24 / 5) [] (0, 0) = Inr s'"
    using tick_total by blast
  have r: "run module_config initial_state stall = Inr s'"
    unfolding stall_def using t by (simp add: initial_state_def)
  have pb: "ball_position ?b = (1314, 20966)" by (simp add: eval_defs)
  have p: "ball_position s' = (432 - 5163 / 2 * sqrt 3, 332 + 120 * sqrt 3)"
    unfolding tick_position'[OF well_formed_initial t] angle_stall pb by (rule pass_stall)
  have a: "angle s' = 2 * pi / 3"
    unfolding tick_frame(1)[OF well_formed_initial t] by (rule angle_stall)
  have r0: "0 < HEX_RADIUS" by (simp add: HEX_RADIUS_def)
  have "ball_edge_distance 0 s'
        = Some (HEX_RADIUS * (sqrt 3 / 2)
                - dot (vsub (432 - 5163 / 2 * sqrt 3, 332 + 120 * sqrt 3) HEX_CENTER)
                      (cos (hex_phi (2 * pi / 3) 0), sin (hex_phi (2 * pi / 3) 0)))"
    unfolding ball_edge_distance_def a p by (rule edge_distance_hex[OF r0]) simp
  also have "\<dots> = Some (51 * sqrt 3 - 15453 / 4)"
    unfolding hex_phi_120 by (simp add: HEX_RADIUS_def push_eval algebra_simps)
  finally have d: "ball_edge_distance 0 s' = Some (51 * sqrt 3 - 15453 / 4)" .
  have neg: "51 * sqrt 3 - 15453 / 4 < - 3000" using sqrt3_upper by simp
  have "\<not> ball_contained s'"
    using d neg by (simp add: ball_contained_def contained_def ball_edge_distance_def upt6 BALL_RADIUS_def)
  with r p d neg show ?thesis by simp
qed

text \<open>The six steps of the pass, on the offsets of edges 0 and 1.\<close>

lemma stage0:
  fixes t :: real
  assumes "0 < t" "within4 t a b" "m = max 0 (a - t)"
  shows "within4 t (a - m) (b - m / 2) \<and> a - m \<le> t"
  using assms unfolding within4_def max_def by argo

lemma stage1:
  fixes t :: real
  assumes "0 < t" "within4 t a b" "a \<le> t" "m = max 0 (b - t)"
  shows "within4 t (a - m / 2) (b - m) \<and> a - m / 2 \<le> t \<and> b - m \<le> t"
  using assms unfolding within4_def max_def by argo

lemma stage2:
  fixes t :: real
  assumes "0 < t" "within4 t a b" "a \<le> t" "b \<le> t" "m = max 0 (b - a - t)"
  shows "within4 t (a + m / 2) (b - m / 2) \<and> a + m / 2 \<le> t \<and> b - m / 2 \<le> t
         \<and> (b - m / 2) - (a + m / 2) \<le> t"
  using assms unfolding within4_def max_def by argo

lemma stage3:
  fixes t :: real
  assumes "0 < t" "within4 t a b" "a \<le> t" "b \<le> t" "b - a \<le> t" "m = max 0 (- a - t)"
  shows "within4 t (a + m) (b + m / 2) \<and> a + m \<le> t \<and> b + m / 2 \<le> t
         \<and> (b + m / 2) - (a + m) \<le> t \<and> - (a + m) \<le> t"
  using assms unfolding within4_def max_def by argo

lemma stage4:
  fixes t :: real
  assumes "0 < t" "within4 t a b" "a \<le> t" "b \<le> t" "b - a \<le> t" "- a \<le> t" "m = max 0 (- b - t)"
  shows "b + m \<le> t \<and> (b + m) - (a + m / 2) \<le> t \<and> - (a + m / 2) \<le> t \<and> - (b + m) \<le> t
         \<and> (a + m / 2) - (b + m) \<le> 3 * t
         \<and> ((a + m / 2) - (b + m) \<le> t \<longrightarrow> a + m / 2 \<le> t)
         \<and> (t < (a + m / 2) - (b + m) \<longrightarrow> (a + m / 2) + (b + m) \<le> t)"
  using assms unfolding within4_def max_def by argo

lemma stage5:
  fixes t :: real
  assumes "0 < t" "b \<le> t" "b - a \<le> t" "- a \<le> t" "- b \<le> t" "a - b \<le> 3 * t"
    "a - b \<le> t \<longrightarrow> a \<le> t" "t < a - b \<longrightarrow> a + b \<le> t" "m = max 0 (a - b - t)"
  shows "a - m / 2 \<le> t \<and> b + m / 2 \<le> t \<and> (b + m / 2) - (a - m / 2) \<le> t
         \<and> - (a - m / 2) \<le> t \<and> - (b + m / 2) \<le> t \<and> (a - m / 2) - (b + m / 2) \<le> t"
  using assms unfolding max_def by argo

text \<open>The outward directions of the edges, and what a correction does to the offsets.\<close>

lemma push_max:
  "push u p = vsub p (vmul u (max 0 (dot (vsub p HEX_CENTER) u - slack)))"
  by (simp add: push_def slack_def max_def vec_defs algebra_simps)

lemma push_dot:
  "dot (vsub (push u p) HEX_CENTER) w
   = dot (vsub p HEX_CENTER) w - max 0 (dot (vsub p HEX_CENTER) u - slack) * dot u w"
  unfolding push_max by (simp add: vec_defs algebra_simps)

lemma hex_phi_step: "hex_phi ang (i + 1) = hex_phi ang i + pi / 3"
  by (simp add: hex_phi_def field_simps)

lemma cos_sin_60:
  "cos (x + pi / 3) = cos x / 2 - sin x * (sqrt 3 / 2)"
  "sin (x + pi / 3) = sin x / 2 + cos x * (sqrt 3 / 2)"
  by (simp_all add: cos_add sin_add cos_60 sin_60)

lemma hex_dir_Suc:
  "hex_dir ang (i + 1) = (fst (hex_dir ang i) / 2 - snd (hex_dir ang i) * (sqrt 3 / 2),
                          snd (hex_dir ang i) / 2 + fst (hex_dir ang i) * (sqrt 3 / 2))"
  unfolding hex_dir_def hex_phi_step by (simp add: cos_sin_60)

lemma hex_dir_unit: "dot (hex_dir ang i) (hex_dir ang i) = 1"
  by (simp add: hex_dir_def dot_def)

lemma hex_dir_opposite: "hex_dir ang (i + 3) = vneg (hex_dir ang i)"
proof -
  have "hex_phi ang (i + 3) = hex_phi ang i + pi" by (simp add: hex_phi_def field_simps)
  then show ?thesis by (simp add: hex_dir_def vneg_def)
qed

lemma hex_dir_1:
  "hex_dir ang 1 = (cos (hex_phi ang 0) / 2 - sin (hex_phi ang 0) * (sqrt 3 / 2),
                    sin (hex_phi ang 0) / 2 + cos (hex_phi ang 0) * (sqrt 3 / 2))"
proof -
  have "hex_phi ang 1 = hex_phi ang 0 + pi / 3" by (simp add: hex_phi_def)
  then show ?thesis unfolding hex_dir_def by (simp only: cos_sin_60)
qed

lemma hex_dir_2': 
  "hex_dir ang 2 = (- (cos (hex_phi ang 0) / 2) - sin (hex_phi ang 0) * (sqrt 3 / 2),
                    - (sin (hex_phi ang 0) / 2) + cos (hex_phi ang 0) * (sqrt 3 / 2))"
proof -
  have "hex_phi ang 2 = hex_phi ang 0 + 2 * pi / 3" by (simp add: hex_phi_def)
  then show ?thesis unfolding hex_dir_def by (simp add: cos_add sin_add cos_120 sin_120)
qed

lemma hex_dir_2: "hex_dir ang 2 = vsub (hex_dir ang 1) (hex_dir ang 0)"
  unfolding hex_dir_2' hex_dir_1 by (simp add: hex_dir_def vsub_def)

lemma hex_dir_3: "hex_dir ang 3 = vneg (hex_dir ang 0)"
  using hex_dir_opposite[of ang 0] by simp

lemma hex_dir_4: "hex_dir ang 4 = vneg (hex_dir ang 1)"
  using hex_dir_opposite[of ang 1] by simp

lemma hex_dir_5: "hex_dir ang 5 = vsub (hex_dir ang 0) (hex_dir ang 1)"
  using hex_dir_opposite[of ang 2] unfolding hex_dir_2 by (simp add: vneg_def vsub_def)

lemma hex_dir_01: "dot (hex_dir ang 0) (hex_dir ang 1) = 1 / 2" "dot (hex_dir ang 1) (hex_dir ang 0) = 1 / 2"
proof -
  have "dot (hex_dir ang 0) (hex_dir ang 1) = dot (hex_dir ang 0) (hex_dir ang 0) / 2"
    unfolding hex_dir_1 by (simp add: hex_dir_def dot_def algebra_simps)
  then show "dot (hex_dir ang 0) (hex_dir ang 1) = 1 / 2" by (simp add: hex_dir_unit del: One_nat_def)
  then show "dot (hex_dir ang 1) (hex_dir ang 0) = 1 / 2" by (simp add: dot_def mult.commute del: One_nat_def)
qed

lemma dot_linear:
  "dot p (vsub u v) = dot p u - dot p v"
  "dot (vsub u v) w = dot u w - dot v w"
  "dot p (vneg u) = - dot p u"
  "dot (vneg u) w = - dot u w"
  by (simp_all add: vec_defs algebra_simps)

lemma offsets:
  "offset ang 2 p = offset ang 1 p - offset ang 0 p"
  "offset ang 3 p = - offset ang 0 p"
  "offset ang 4 p = - offset ang 1 p"
  "offset ang 5 p = offset ang 0 p - offset ang 1 p"
  by (simp_all add: offset_def hex_dir_2 hex_dir_3 hex_dir_4 hex_dir_5 dot_linear del: One_nat_def)

lemmas dir_dots = hex_dir_2 hex_dir_3 hex_dir_4 hex_dir_5 dot_linear hex_dir_unit hex_dir_01

lemma push_offsets:
  "offset ang 0 (push (hex_dir ang 0) p) = offset ang 0 p - max 0 (offset ang 0 p - slack)"
  "offset ang 1 (push (hex_dir ang 0) p) = offset ang 1 p - max 0 (offset ang 0 p - slack) / 2"
  "offset ang 0 (push (hex_dir ang 1) p) = offset ang 0 p - max 0 (offset ang 1 p - slack) / 2"
  "offset ang 1 (push (hex_dir ang 1) p) = offset ang 1 p - max 0 (offset ang 1 p - slack)"
  "offset ang 0 (push (hex_dir ang 2) p) = offset ang 0 p + max 0 (offset ang 1 p - offset ang 0 p - slack) / 2"
  "offset ang 1 (push (hex_dir ang 2) p) = offset ang 1 p - max 0 (offset ang 1 p - offset ang 0 p - slack) / 2"
  "offset ang 0 (push (hex_dir ang 3) p) = offset ang 0 p + max 0 (- offset ang 0 p - slack)"
  "offset ang 1 (push (hex_dir ang 3) p) = offset ang 1 p + max 0 (- offset ang 0 p - slack) / 2"
  "offset ang 0 (push (hex_dir ang 4) p) = offset ang 0 p + max 0 (- offset ang 1 p - slack) / 2"
  "offset ang 1 (push (hex_dir ang 4) p) = offset ang 1 p + max 0 (- offset ang 1 p - slack)"
  "offset ang 0 (push (hex_dir ang 5) p) = offset ang 0 p - max 0 (offset ang 0 p - offset ang 1 p - slack) / 2"
  "offset ang 1 (push (hex_dir ang 5) p) = offset ang 1 p + max 0 (offset ang 0 p - offset ang 1 p - slack) / 2"
  unfolding offset_def push_dot by (simp_all add: dir_dots del: One_nat_def)

lemma slack_pos: "0 < slack"
proof -
  have "17 / 10 \<le> sqrt 3" by (rule sqrt3_lower)
  then show ?thesis by (simp add: slack_def HEX_RADIUS_def BALL_RADIUS_def)
qed

lemma slack_740: "740 \<le> 4 * slack"
proof -
  have "17 / 10 \<le> sqrt 3" by (rule sqrt3_lower)
  then show ?thesis by (simp add: slack_def HEX_RADIUS_def BALL_RADIUS_def)
qed

lemma offset_le: "offset ang i p \<le> vlength (vsub p HEX_CENTER)"
  using dot_unit_le[of "fst (vsub p HEX_CENTER)" "hex_phi ang i" "snd (vsub p HEX_CENTER)"]
  by (simp add: offset_def hex_dir_def dot_def vlength_def length_squared_def)

lemma within4_near:
  assumes "vlength (vsub p HEX_CENTER) \<le> 740"
  shows "within4 slack (offset ang 0 p) (offset ang 1 p)"
proof -
  have "offset ang i p \<le> 4 * slack" for i
    using offset_le[of ang i p] assms slack_740 by linarith
  from this[of 0] this[of 1] this[of 2] this[of 3] this[of 4] this[of 5]
  show ?thesis by (simp add: within4_def offsets)
qed

lemma pass_offsets:
  assumes "within4 slack (offset ang 0 p) (offset ang 1 p)"
    and "i < 6"
  shows "offset ang i (foldl (\<lambda>p i. push (hex_dir ang i) p) p [0..<6]) \<le> slack"
proof -
  define p1 where "p1 = push (hex_dir ang 0) p"
  define p2 where "p2 = push (hex_dir ang 1) p1"
  define p3 where "p3 = push (hex_dir ang 2) p2"
  define p4 where "p4 = push (hex_dir ang 3) p3"
  define p5 where "p5 = push (hex_dir ang 4) p4"
  define p6 where "p6 = push (hex_dir ang 5) p5"
  note T = slack_pos
  have s1: "within4 slack (offset ang 0 p1) (offset ang 1 p1) \<and> offset ang 0 p1 \<le> slack"
    unfolding p1_def push_offsets using stage0[OF T assms(1) refl] .
  then have s2: "within4 slack (offset ang 0 p2) (offset ang 1 p2) \<and> offset ang 0 p2 \<le> slack
      \<and> offset ang 1 p2 \<le> slack"
    unfolding p2_def push_offsets using stage1[OF T _ _ refl] by blast
  then have s3: "within4 slack (offset ang 0 p3) (offset ang 1 p3) \<and> offset ang 0 p3 \<le> slack
      \<and> offset ang 1 p3 \<le> slack \<and> offset ang 1 p3 - offset ang 0 p3 \<le> slack"
    unfolding p3_def push_offsets using stage2[OF T _ _ _ refl] by blast
  then have s4: "within4 slack (offset ang 0 p4) (offset ang 1 p4) \<and> offset ang 0 p4 \<le> slack
      \<and> offset ang 1 p4 \<le> slack \<and> offset ang 1 p4 - offset ang 0 p4 \<le> slack
      \<and> - offset ang 0 p4 \<le> slack"
    unfolding p4_def push_offsets using stage3[OF T _ _ _ _ refl] by blast
  then have s5: "offset ang 1 p5 \<le> slack \<and> offset ang 1 p5 - offset ang 0 p5 \<le> slack
      \<and> - offset ang 0 p5 \<le> slack \<and> - offset ang 1 p5 \<le> slack
      \<and> offset ang 0 p5 - offset ang 1 p5 \<le> 3 * slack
      \<and> (offset ang 0 p5 - offset ang 1 p5 \<le> slack \<longrightarrow> offset ang 0 p5 \<le> slack)
      \<and> (slack < offset ang 0 p5 - offset ang 1 p5 \<longrightarrow> offset ang 0 p5 + offset ang 1 p5 \<le> slack)"
    unfolding p5_def push_offsets using stage4[OF T _ _ _ _ _ refl] by blast
  then have s6: "offset ang 0 p6 \<le> slack \<and> offset ang 1 p6 \<le> slack
      \<and> offset ang 1 p6 - offset ang 0 p6 \<le> slack \<and> - offset ang 0 p6 \<le> slack
      \<and> - offset ang 1 p6 \<le> slack \<and> offset ang 0 p6 - offset ang 1 p6 \<le> slack"
    unfolding p6_def push_offsets using stage5[OF T _ _ _ _ _ _ _ refl] by blast
  have f: "foldl (\<lambda>p i. push (hex_dir ang i) p) p [0..<6] = p6"
    unfolding upt6 by (simp only: foldl.simps p1_def p2_def p3_def p4_def p5_def p6_def)
  from assms(2) have "i = 0 \<or> i = 1 \<or> i = 2 \<or> i = 3 \<or> i = 4 \<or> i = 5" by arith
  with s6 show ?thesis unfolding f by (auto simp: offsets)
qed

lemma ball_edge_distance_offset:
  assumes "i < 6"
  shows "ball_edge_distance i s = Some (BALL_RADIUS + (slack - offset (angle s) i (ball_position s)))"
proof -
  have r: "0 < HEX_RADIUS" by (simp add: HEX_RADIUS_def)
  show ?thesis
    unfolding ball_edge_distance_def edge_distance_hex[OF r assms]
    by (simp add: offset_def hex_dir_def slack_def)
qed

lemma tick_offsets:
  assumes "well_formed s"
    and "vlength (vsub (ball_position (before_collision cfg s dt evs m)) HEX_CENTER) \<le> 740"
    and "tick cfg s dt evs m = Inr s'"
    and "i < 6"
  shows "offset (angle s') i (ball_position s') \<le> slack"
  unfolding tick_position'[OF assms(1,3)] tick_frame(1)[OF assms(1,3)]
  using within4_near[OF assms(2)] assms(4) by (rule pass_offsets)

lemma vlength_le:
  assumes "0 \<le> r" "length_squared v \<le> r * r"
  shows "vlength v \<le> r"
  unfolding vlength_def using assms by (intro real_le_lsqrt) (simp_all add: power2_eq_square)

text \<open>
  C3, as the program has it. In every tick in which the centre of the ball, before
  collision resolution, lies within 740 units of \<^verbatim>\<open>HEX_CENTER\<close>, the single pass
  over the edges ends with the ball contained: for each of the six edges of the hexagon
  at the angle of that tick the signed distance of the centre along the inward normal is
  at least \<^verbatim>\<open>BALL_RADIUS\<close>, hence at least \<^verbatim>\<open>BALL_RADIUS\<close> less any tolerance.
  The window is 900 by 700 about the centre, so every pointer position in it, with any
  grab offset, is within that range. The frame of 4.8 seconds above throws the ball
  some 20000 units away, where one pass is not enough.
\<close>

theorem single_pass_containment:
  assumes "well_formed s"
    and "vlength (vsub (ball_position (before_collision cfg s dt evs m)) HEX_CENTER) \<le> 740"
  shows "map_sum id ball_contained (tick cfg s dt evs m) = Inr True
    \<and> (\<forall>i<6. \<forall>eps\<ge>0. \<exists>d. map_sum id (ball_edge_distance i) (tick cfg s dt evs m) = Inr (Some d)
                            \<and> BALL_RADIUS - eps \<le> d)"
proof -
  obtain s' where t: "tick cfg s dt evs m = Inr s'" using tick_total by blast
  have o: "offset (angle s') i (ball_position s') \<le> slack" if "i < 6" for i
    using assms t that by (rule tick_offsets)
  have d: "\<exists>d. ball_edge_distance i s' = Some d \<and> BALL_RADIUS - eps \<le> d" if "i < 6" "0 \<le> eps" for i eps
    using o[OF that(1)] that(2) by (simp add: ball_edge_distance_offset[OF that(1)])
  have "ball_contained s'"
    using o
    by (simp add: ball_contained_def contained_def list_all_iff
          ball_edge_distance_offset[unfolded ball_edge_distance_def])
  with d show ?thesis by (simp add: t)
qed

text \<open>
  An instance where the pass has work to do: the ball is grabbed and the pointer stands
  at \<open>(450, 690)\<close> while the hexagon is at 120 degrees. Before collision resolution the
  ball is 340 units below the centre and outside the lowest edge; after it, contained.
\<close>

theorem single_pass_containment_witness:
  "well_formed initial_state
   \<and> vlength (vsub (ball_position (before_collision module_config initial_state (24 / 5)
                                     [MOUSEBUTTONDOWN 1 (450, 230)] (450, 690))) HEX_CENTER) \<le> 740
   \<and> \<not> ball_contained (before_collision module_config initial_state (24 / 5)
                           [MOUSEBUTTONDOWN 1 (450, 230)] (450, 690))
   \<and> map_sum id ball_contained (tick module_config initial_state (24 / 5)
                                   [MOUSEBUTTONDOWN 1 (450, 230)] (450, 690)) = Inr True"
proof -
  let ?b = "before_collision module_config initial_state (24 / 5)
              [MOUSEBUTTONDOWN 1 (450, 230)] (450, 690)"
  have p: "ball_position ?b = (450, 690)" by (simp add: eval_defs)
  have a: "angle ?b = 2 * pi / 3" by (simp add: eval_defs ANGULAR_SPEED_def)
  have near: "vlength (vsub (ball_position ?b) HEX_CENTER) \<le> 740"
    unfolding p by (rule vlength_le) (simp_all add: vec_defs HEX_CENTER_def)
  have i5: "(5::nat) < 6" by simp
  have o5: "offset (angle ?b) 5 (ball_position ?b) = 340"
    unfolding a p offset_def hex_dir_120 by (simp add: vec_defs HEX_CENTER_def)
  have "ball_edge_distance 5 ?b = Some (BALL_RADIUS + (slack - 340))"
    using ball_edge_distance_offset[OF i5, of ?b] unfolding o5 .
  moreover have "slack - 340 < 0"
    using sqrt3_upper by (simp add: slack_def HEX_RADIUS_def BALL_RADIUS_def)
  ultimately have out: "\<not> ball_contained ?b"
    by (simp add: ball_contained_def contained_def ball_edge_distance_def upt6)
  from single_pass_containment[OF well_formed_initial near] well_formed_initial near out
  show ?thesis by blast
qed

subsection \<open>A release with nothing held\<close>

text \<open>
  A release of the button while the ball is free never moves the ball. It leaves the
  velocity alone as long as the velocity of the ball and the throw velocity are two
  objects, and zeroes it once they are one, which is the case after the first release of
  a held ball.
\<close>

lemma pointer_up_free_position:
  assumes "well_formed s" and "\<not> drag_active s"
  shows "ball_position (handle_event s (MOUSEBUTTONUP 1)) = ball_position s"
  using assms by (simp add: well_formed_def reset_def store_def Let_def ball_position_def)

lemma pointer_up_free_velocity:
  assumes "well_formed s" and "\<not> drag_active s"
  shows "ball_velocity (handle_event s (MOUSEBUTTONUP 1))
         = (if ball_vel s = drag_throw_vel s then (0, 0) else ball_velocity s)"
  using assms by (simp add: well_formed_def reset_def store_def Let_def ball_velocity_def)

lemma release_aliases_velocity:
  "drag_active s \<Longrightarrow>
   ball_vel (handle_event s (MOUSEBUTTONUP 1)) = drag_throw_vel (handle_event s (MOUSEBUTTONUP 1))"
  by (simp add: reset_def store_def Let_def)

end
